theory Spec2Isabelle
  imports Complex_Main "HOL-Library.Char_ord" "HOL-Library.List_Lexorder" "HOL-Library.AList"
begin

section \<open>The parent.config generator of Traffic Ops (package ats)\<close>

text \<open>
  A shallow embedding of \<^verbatim>\<open>GetParentDotConfig\<close> and of the helpers it calls.
  \<^item> Go strings are byte strings, modelled by \<^typ>\<open>string\<close>; sorting a
    \<^verbatim>\<open>sort.StringSlice\<close> is sorting by the lexicographic order on bytes.
  \<^item> Go's \<^verbatim>\<open>int\<close> is modelled by \<^typ>\<open>int\<close>: the generator compares,
    parses and prints integers, it never computes with them.
  \<^item> The \<^verbatim>\<open>float64\<close> weight is only parsed, stored and printed; it is
    modelled by the rational number its decimal text denotes.
  \<^item> A \<^verbatim>\<open>map[string]struct{}\<close> used as a set is a \<^typ>\<open>string set\<close>; a map
    that is only read by key is a partial function; a map that is also ranged
    over or measured with \<^verbatim>\<open>len\<close> is an association list with distinct keys.
  \<^item> Record fields carry a prefix naming their struct (\<open>srv_\<close>, \<open>ds_\<close>,
    \<open>pi_\<close>, \<open>pc_\<close>, \<open>cgp_\<close>, \<open>org_\<close>, \<open>url_\<close>), since several structs
    share field names.
  \<^item> Every function that reads the database returns the events it produced
    (failed queries, and the lines written with \<^verbatim>\<open>log.Errorln\<close>,
    \<^verbatim>\<open>log.Warnln\<close> and \<^verbatim>\<open>log.Warnf\<close>; the \<^verbatim>\<open>DEBUG\<close> trace lines are left
    out) together with either an error or its value.
\<close>

subsection \<open>Data\<close>

record ServerInfo =
  srv_CacheGroupID :: int
  srv_CDN :: string
  srv_CDNID :: int
  srv_DomainName :: string
  srv_HostName :: string
  srv_ID :: int
  srv_IP :: string
  srv_ParentCacheGroupID :: int
  srv_ParentCacheGroupType :: string
  srv_ProfileID :: int
  srv_ProfileName :: string
  srv_Port :: int
  srv_SecondaryParentCacheGroupID :: int
  srv_SecondaryParentCacheGroupType :: string
  srv_Type :: string

record ParentConfigDS =
  ds_Name :: string
  ds_QStringIgnore :: int
  ds_OriginFQDN :: string
  ds_MultiSiteOrigin :: bool
  ds_OriginShield :: string
  ds_Type :: string
  ds_QStringHandling :: string

record ParentConfigDSTopLevel = ParentConfigDS +
  ds_MSOAlgorithm :: string
  ds_MSOParentRetry :: string
  ds_MSOUnavailableServerRetryResponses :: string
  ds_MSOMaxSimpleRetries :: string
  ds_MSOMaxUnavailableServerRetries :: string

record ParentInfo =
  pi_Host :: string
  pi_Port :: int
  pi_Domain :: string
  pi_Weight :: rat
  pi_UseIP :: bool
  pi_Rank :: int
  pi_IP :: string
  pi_PrimaryParent :: bool
  pi_SecondaryParent :: bool

record ProfileCache =
  pc_Weight :: rat
  pc_Port :: int
  pc_UseIP :: bool
  pc_Rank :: int
  pc_NotAParent :: bool

record CGPDeliveryService =
  cgp_ServerID :: int
  cgp_ServerHost :: string
  cgp_ServerIP :: string
  cgp_ServerPort :: int
  cgp_CacheGroupID :: int
  cgp_Status :: int
  cgp_Type :: int
  cgp_ProfileID :: int
  cgp_CDN :: int
  cgp_TypeName :: string
  cgp_Domain :: string

record OriginURI =
  org_Scheme :: string
  org_Host :: string
  org_Port :: string

text \<open>The two fields of \<^verbatim>\<open>url.URL\<close> that the generator reads and writes.\<close>

record URL =
  url_Scheme :: string
  url_Host :: string

definition TypeCacheGroupOrigin :: string where "TypeCacheGroupOrigin = ''ORG_LOC''"
definition DefaultATSVersion :: string where "DefaultATSVersion = ''5''"
definition AlgorithmConsistentHash :: string where "AlgorithmConsistentHash = ''consistent_hash''"
definition DeliveryServicesAllParentsKey :: string where "DeliveryServicesAllParentsKey = ''all_parents''"
definition TypeOrigin :: string where "TypeOrigin = ''ORG''"

definition ParentConfigParamQStringHandling :: string where
  "ParentConfigParamQStringHandling = ''psel.qstring_handling''"
definition ParentConfigParamMSOAlgorithm :: string where
  "ParentConfigParamMSOAlgorithm = ''mso.algorithm''"
definition ParentConfigParamMSOParentRetry :: string where
  "ParentConfigParamMSOParentRetry = ''mso.parent_retry''"
definition ParentConfigParamUnavailableServerRetryResponses :: string where
  "ParentConfigParamUnavailableServerRetryResponses = ''mso.unavailable_server_retry_responses''"
definition ParentConfigParamMaxSimpleRetries :: string where
  "ParentConfigParamMaxSimpleRetries = ''mso.max_simple_retries''"
definition ParentConfigParamMaxUnavailableServerRetryResponses :: string where
  "ParentConfigParamMaxUnavailableServerRetryResponses = ''mso.max_unavailable_server_retry_responses''"
definition ParentConfigParamAlgorithm :: string where
  "ParentConfigParamAlgorithm = ''algorithm''"
definition ParentConfigParamQString :: string where
  "ParentConfigParamQString = ''qstring''"

definition ParentConfigCacheParamWeight :: string where "ParentConfigCacheParamWeight = ''weight''"
definition ParentConfigCacheParamPort :: string where "ParentConfigCacheParamPort = ''port''"
definition ParentConfigCacheParamUseIP :: string where "ParentConfigCacheParamUseIP = ''use_ip_address''"
definition ParentConfigCacheParamRank :: string where "ParentConfigCacheParamRank = ''rank''"
definition ParentConfigCacheParamNotAParent :: string where
  "ParentConfigCacheParamNotAParent = ''not_a_parent''"

subsection \<open>The Go library and the packages outside this file\<close>

text \<open>
  The generator calls functions of the Go standard library and of the packages
  \<^verbatim>\<open>lib/go-tc\<close>, whose code is not part of the generator. They are parameters of the
  model. \<open>url_Hostname\<close> and \<open>url_Port\<close> are the methods \<^verbatim>\<open>Hostname()\<close> and
  \<^verbatim>\<open>Port()\<close>, which read the field \<^verbatim>\<open>Host\<close>. \<^verbatim>\<open>sort.Sort\<close> is not stable, so
  the two sorts on a key are parameters as well. A parser returns the text of its
  error on the left.
\<close>

record golib =
  url_Parse :: "string \<Rightarrow> string + URL"
  url_Hostname :: "string \<Rightarrow> string"
  url_Port :: "string \<Rightarrow> string"
  strconv_Atoi :: "string \<Rightarrow> string + int"
  strconv_Itoa :: "int \<Rightarrow> string"
  strconv_ParseInt :: "string \<Rightarrow> string + int"
  strconv_ParseFloat :: "string \<Rightarrow> string + rat"
  strconv_FormatFloat :: "rat \<Rightarrow> string"
  sort_ParentInfoSortByRank :: "ParentInfo list \<Rightarrow> ParentInfo list"
  sort_ParentConfigDSSortByName :: "ParentConfigDS list \<Rightarrow> ParentConfigDS list"
  tc_DSTypeFromString :: "string \<Rightarrow> string"
  tc_DSTypeHTTPNoCache :: string
  tc_DSTypeHTTPLive :: string
  tc_DSTypeDNSLive :: string

subsection \<open>Events, errors and the database\<close>

datatype event = QueryFailed string | Logged string

text \<open>A computation: the events it produced, and an error (left) or a value (right).\<close>

type_synonym ('e, 'a) io = "event list \<times> ('e + 'a)"

definition io_return :: "'a \<Rightarrow> ('e, 'a) io" where
  "io_return x = ([], Inr x)"

definition io_error :: "'e \<Rightarrow> ('e, 'a) io" where
  "io_error e = ([], Inl e)"

definition io_bind :: "('e, 'a) io \<Rightarrow> ('a \<Rightarrow> ('e, 'b) io) \<Rightarrow> ('e, 'b) io" where
  "io_bind m f =
     (case m of
        (es, Inl e) \<Rightarrow> (es, Inl e)
      | (es, Inr x) \<Rightarrow> (case f x of (es', r) \<Rightarrow> (es @ es', r)))"

text \<open>A Go function fails with an \<^verbatim>\<open>error\<close> value or with a panic.\<close>

datatype failure = Error string | Panic string

text \<open>\<^verbatim>\<open>errors.New(prefix + err.Error())\<close> on the error path.\<close>

definition io_wrap :: "string \<Rightarrow> (failure, 'a) io \<Rightarrow> (failure, 'a) io" where
  "io_wrap prefix m =
     (case m of (es, Inl (Error e)) \<Rightarrow> (es, Inl (Error (prefix @ e))) | (es, r) \<Rightarrow> (es, r))"

text \<open>A loop over a slice whose body may return from the function.\<close>

fun io_foldl :: "('s \<Rightarrow> 'a \<Rightarrow> ('e, 's) io) \<Rightarrow> 's \<Rightarrow> 'a list \<Rightarrow> ('e, 's) io" where
  "io_foldl f s [] = io_return s"
| "io_foldl f s (x # xs) = io_bind (f s x) (\<lambda>s'. io_foldl f s' xs)"

text \<open>
  The result of \<^verbatim>\<open>tx.Query\<close>: an error, or the rows, each of which
  \<^verbatim>\<open>rows.Scan\<close> turns into a value or an error. The result of
  \<^verbatim>\<open>tx.QueryRow(...).Scan\<close>: \<^verbatim>\<open>sql.ErrNoRows\<close>, another error, or the row.
  An error of the iteration itself, which only \<^verbatim>\<open>rows.Err()\<close> reports, is not
  modelled: the generator never calls it.
\<close>

datatype 'r query_rows = QueryError string | Rows "(string + 'r) list"

datatype 'r query_row = ErrNoRows | RowError string | Row 'r

text \<open>A row of the query for the parameters of the delivery services, whose columns
  are \<^verbatim>\<open>SELECT ds.xml_id, pa.value, pa.name\<close>.\<close>

record DSParamRow =
  col_xml_id :: string
  col_value :: string
  col_name :: string

text \<open>
  The database, as the queries of the generator see it in one transaction.
  \<^verbatim>\<open>headerComment\<close> is a function of the package whose code is in another file; it
  takes the transaction and a host name and returns a string or an error.
\<close>

record db =
  db_ServerInfoByID :: "int \<Rightarrow> ServerInfo query_row"
  db_ServerInfoByHost :: "string \<Rightarrow> ServerInfo query_row"
  db_ProfileParamValue :: "int \<Rightarrow> string \<Rightarrow> string \<Rightarrow> string query_row"
  db_headerComment :: "string \<Rightarrow> string + string"
  db_ParentConfigDS :: "int \<Rightarrow> ParentConfigDS query_rows"
  db_ParentConfigDSTopLevel :: "string \<Rightarrow> ParentConfigDS query_rows"
  db_ParentConfigDSParams :: "string list \<Rightarrow> DSParamRow query_rows"
  db_ParentConfigDSParamsTopLevel :: "string list \<Rightarrow> DSParamRow query_rows"
  db_ParentConfigServerProfileParams :: "int \<Rightarrow> (string \<times> string) query_rows"
  db_CDNDomainByProfileID :: "int \<Rightarrow> string query_row"
  db_ServerParentCacheGroupProfiles :: "bool \<Rightarrow> int \<Rightarrow> string \<Rightarrow> CGPDeliveryService query_rows"
  db_ServerDSes :: "int list \<Rightarrow> (int \<times> int) query_rows"
  db_ParentConfigServerProfileParamsX :: "int list \<Rightarrow> (int \<times> string \<times> string) query_rows"
  db_DSOrigins :: "int set \<Rightarrow> (int \<times> string \<times> string \<times> string) query_rows"

text \<open>What the handler sends: \<^verbatim>\<open>api.HandleErr\<close> with a status code, a user error and
  a system error, or \<^verbatim>\<open>w.Write\<close> with the configuration text.\<close>

datatype response = HandleErr int "string option" "string option" | Write string | Panicked string

text \<open>\<^verbatim>\<open>api.HandleErr\<close> with a system error made of a prefix and the error, then
  \<^verbatim>\<open>return\<close>; a panic goes through the handler.\<close>

definition io_handle :: "int \<Rightarrow> string \<Rightarrow> (failure, 'a) io \<Rightarrow> (response, 'a) io" where
  "io_handle code prefix m =
     (case m of
        (es, Inl (Error e)) \<Rightarrow> (es, Inl (HandleErr code None (Some (prefix @ e))))
      | (es, Inl (Panic p)) \<Rightarrow> (es, Inl (Panicked p))
      | (es, Inr x) \<Rightarrow> (es, Inr x))"

text \<open>\<^verbatim>\<open>tx.Query\<close>, and the loop \<^verbatim>\<open>for rows.Next()\<close> with \<^verbatim>\<open>rows.Scan\<close>: the
  body receives the scanned row and returns the lines it logs and the new
  accumulator.\<close>

definition tx_Query :: "string \<Rightarrow> 'r query_rows \<Rightarrow> (failure, (string + 'r) list) io" where
  "tx_Query name q =
     (case q of
        QueryError e \<Rightarrow> ([QueryFailed name], Inl (Error (''querying: '' @ e)))
      | Rows rs \<Rightarrow> io_return rs)"

definition rows_Scan ::
  "string \<Rightarrow> ('s \<Rightarrow> 'r \<Rightarrow> event list \<times> 's) \<Rightarrow> 's \<Rightarrow> (string + 'r) list \<Rightarrow> (failure, 's) io" where
  "rows_Scan name body init rs =
     io_foldl (\<lambda>acc r. case r of
                  Inl e \<Rightarrow> ([QueryFailed name], Inl (Error (''scanning: '' @ e)))
                | Inr v \<Rightarrow> (case body acc v of (es, acc') \<Rightarrow> (es, Inr acc')))
       init rs"

subsection \<open>String helpers\<close>

text \<open>\<^verbatim>\<open>removeStrDuplicates\<close>: the loop over \<^verbatim>\<open>pi\<close>, with the slice
  \<^verbatim>\<open>npi\<close> and the map \<^verbatim>\<open>seen\<close> as accumulators.\<close>

fun removeStrDuplicates_loop ::
  "string list \<Rightarrow> string list \<Rightarrow> string set \<Rightarrow> string list \<times> string set" where
  "removeStrDuplicates_loop [] npi seen = (npi, seen)"
| "removeStrDuplicates_loop (p # pis) npi seen =
     (if p \<notin> seen then removeStrDuplicates_loop pis (npi @ [p]) (insert p seen)
      else removeStrDuplicates_loop pis npi seen)"

definition removeStrDuplicates :: "string list \<Rightarrow> string set \<Rightarrow> string list \<times> string set" where
  "removeStrDuplicates pis seen = removeStrDuplicates_loop pis [] seen"

text \<open>\<^verbatim>\<open>strings.TrimSuffix\<close>, and \<^verbatim>\<open>strings.Join\<close>.\<close>

definition strings_TrimSuffix :: "string \<Rightarrow> string \<Rightarrow> string" where
  "strings_TrimSuffix s suffix =
     (if length suffix \<le> length s \<and> drop (length s - length suffix) s = suffix
      then take (length s - length suffix) s else s)"

fun strings_Join :: "string list \<Rightarrow> string \<Rightarrow> string" where
  "strings_Join [] sep = ''''"
| "strings_Join [x] sep = x"
| "strings_Join (x # y # xs) sep = x @ sep @ strings_Join (y # xs) sep"

text \<open>The replacer \<^verbatim>\<open>strings.NewReplacer(" ", "", "\t", "", "\n", "")\<close>: it deletes
  every space, tab and newline.\<close>

definition removeSpaceReplacer :: "string \<Rightarrow> string" where
  "removeSpaceReplacer s = filter (\<lambda>c. c \<noteq> CHR '' '' \<and> c \<noteq> CHR 0x09 \<and> c \<noteq> CHR 0x0A) s"

definition sq :: string where "sq = [CHR 0x27]"

subsection \<open>Regular expressions\<close>

text \<open>
  The syntax of the patterns used, and matching of a whole string by derivatives.
  \<open>Digit\<close> is \<^verbatim>\<open>\d\<close> (an ASCII digit), \<open>Opt r\<close> is \<^verbatim>\<open>r?\<close>, \<open>Plus r\<close> is
  \<^verbatim>\<open>r+\<close> and \<open>Rep n r\<close> is \<^verbatim>\<open>r{n}\<close>.
\<close>

datatype regex = Zero | One | Atom char | Digit | Alt regex regex | Seq regex regex | Star regex

definition Opt :: "regex \<Rightarrow> regex" where "Opt r = Alt r One"

definition Plus :: "regex \<Rightarrow> regex" where "Plus r = Seq r (Star r)"

fun Rep :: "nat \<Rightarrow> regex \<Rightarrow> regex" where
  "Rep 0 r = One"
| "Rep (Suc n) r = Seq r (Rep n r)"

definition is_digit :: "char \<Rightarrow> bool" where
  "is_digit c = (c \<in> set ''0123456789'')"

fun nullable :: "regex \<Rightarrow> bool" where
  "nullable Zero = False"
| "nullable One = True"
| "nullable (Atom c) = False"
| "nullable Digit = False"
| "nullable (Alt r s) = (nullable r \<or> nullable s)"
| "nullable (Seq r s) = (nullable r \<and> nullable s)"
| "nullable (Star r) = True"

fun deriv :: "char \<Rightarrow> regex \<Rightarrow> regex" where
  "deriv c Zero = Zero"
| "deriv c One = Zero"
| "deriv c (Atom d) = (if c = d then One else Zero)"
| "deriv c Digit = (if is_digit c then One else Zero)"
| "deriv c (Alt r s) = Alt (deriv c r) (deriv c s)"
| "deriv c (Seq r s) =
     (if nullable r then Alt (Seq (deriv c r) s) (deriv c s) else Seq (deriv c r) s)"
| "deriv c (Star r) = Seq (deriv c r) (Star r)"

fun matches :: "regex \<Rightarrow> string \<Rightarrow> bool" where
  "matches r [] = nullable r"
| "matches r (c # cs) = matches (deriv c r) cs"

text \<open>The pattern \<^verbatim>\<open>^(:?\d{3},)+\d{3}$\<close>; with both anchors, and no flag,
  \<^verbatim>\<open>MatchString\<close> holds when the whole string matches what is between them.\<close>

definition retryResponsesRegex :: regex where
  "retryResponsesRegex =
     Seq (Plus (Seq (Opt (Atom CHR '':'')) (Seq (Rep 3 Digit) (Atom CHR '','')))) (Rep 3 Digit)"

definition unavailableServerRetryResponsesValid :: "string \<Rightarrow> bool" where
  "unavailableServerRetryResponsesValid s =
     (if s = '''' then False else matches retryResponsesRegex s)"

subsection \<open>Servers, parents and profiles\<close>

definition IsTopLevelCache :: "ServerInfo \<Rightarrow> bool" where
  "IsTopLevelCache s =
     ((srv_ParentCacheGroupType s = TypeCacheGroupOrigin \<or> srv_ParentCacheGroupID s = 0) \<and>
      (srv_ParentCacheGroupType s = TypeCacheGroupOrigin \<or> srv_SecondaryParentCacheGroupID s = 0))"

definition Format :: "golib \<Rightarrow> ParentInfo \<Rightarrow> string" where
  "Format lib p =
     (let host = (if pi_UseIP p then pi_IP p else pi_Host p @ ''.'' @ pi_Domain p)
      in host @ '':'' @ strconv_Itoa lib (pi_Port p) @ ''|''
           @ strconv_FormatFloat lib (pi_Weight p) @ '';'')"

definition DefaultProfileCache :: ProfileCache where
  "DefaultProfileCache =
     \<lparr>pc_Weight = 0.999, pc_Port = 0, pc_UseIP = False, pc_Rank = 1, pc_NotAParent = False\<rparr>"

text \<open>The zero value of \<^verbatim>\<open>ProfileCache\<close>, which reading a missing key of a map gives.\<close>

definition zeroProfileCache :: ProfileCache where
  "zeroProfileCache =
     \<lparr>pc_Weight = 0, pc_Port = 0, pc_UseIP = False, pc_Rank = 0, pc_NotAParent = False\<rparr>"

text \<open>Reading a key of a map of slices or strings: the zero value when the key is missing.\<close>

definition lookup_list :: "('k \<times> 'v list) list \<Rightarrow> 'k \<Rightarrow> 'v list" where
  "lookup_list m k = (case map_of m k of None \<Rightarrow> [] | Some v \<Rightarrow> v)"

definition lookup_string :: "('k \<rightharpoonup> string) \<Rightarrow> 'k \<Rightarrow> string" where
  "lookup_string m k = (case m k of None \<Rightarrow> '''' | Some v \<Rightarrow> v)"

text \<open>\<^verbatim>\<open>m[k] = append(m[k], v)\<close>.\<close>

definition append_at :: "'k \<Rightarrow> 'v \<Rightarrow> ('k \<times> 'v list) list \<Rightarrow> ('k \<times> 'v list) list" where
  "append_at k v m = AList.update k (lookup_list m k @ [v]) m"

subsection \<open>The parent clauses of a multi-site-origin line\<close>

text \<open>Lines 191 to 202: the ranked parents go to the primary, the secondary or the
  null list, as formatted strings.\<close>

fun bucketParents ::
  "golib \<Rightarrow> ParentInfo list \<Rightarrow> string list \<Rightarrow> string list \<Rightarrow> string list
     \<Rightarrow> string list \<times> string list \<times> string list" where
  "bucketParents lib [] parentInfo secondaryParentInfo nullParentInfo =
     (parentInfo, secondaryParentInfo, nullParentInfo)"
| "bucketParents lib (parent # rest) parentInfo secondaryParentInfo nullParentInfo =
     (if pi_PrimaryParent parent then
        bucketParents lib rest (parentInfo @ [Format lib parent]) secondaryParentInfo nullParentInfo
      else if pi_SecondaryParent parent then
        bucketParents lib rest parentInfo (secondaryParentInfo @ [Format lib parent]) nullParentInfo
      else
        bucketParents lib rest parentInfo secondaryParentInfo (nullParentInfo @ [Format lib parent]))"

text \<open>Lines 204 to 213.\<close>

definition promoteParents ::
  "string list \<times> string list \<times> string list \<Rightarrow> string list \<times> string list \<times> string list" where
  "promoteParents b =
     (case b of (parentInfo, secondaryParentInfo, nullParentInfo) \<Rightarrow>
        if length parentInfo = 0 then
          (let (secondaryParentInfo, nullParentInfo) =
                 (if length secondaryParentInfo = 0 then (nullParentInfo, [])
                  else (secondaryParentInfo, nullParentInfo))
           in (secondaryParentInfo, [], nullParentInfo))
        else (parentInfo, secondaryParentInfo, nullParentInfo))"

text \<open>Lines 216 to 219.\<close>

definition dedupParents ::
  "string list \<times> string list \<times> string list \<Rightarrow> string list \<times> string list \<times> string list" where
  "dedupParents b =
     (case b of (parentInfo, secondaryParentInfo, nullParentInfo) \<Rightarrow>
        (let (parentInfo, seen) = removeStrDuplicates parentInfo {};
             (secondaryParentInfo, seen) = removeStrDuplicates secondaryParentInfo seen;
             (nullParentInfo, seen) = removeStrDuplicates nullParentInfo seen
         in (parentInfo, secondaryParentInfo, nullParentInfo)))"

text \<open>Lines 224 to 230.\<close>

definition msoParents ::
  "int \<Rightarrow> string \<Rightarrow> string list \<times> string list \<times> string list \<Rightarrow> string" where
  \<open>msoParents atsMajorVer msoAlgorithm b =
     (case b of (parentInfo, secondaryParentInfo, nullParentInfo) \<Rightarrow>
        if atsMajorVer \<ge> 6 \<and> msoAlgorithm = ''consistent_hash''
           \<and> (length secondaryParentInfo > 0 \<or> length nullParentInfo > 0)
        then ''parent="'' @ strings_Join parentInfo '''' @ ''" secondary_parent="''
               @ strings_Join secondaryParentInfo '''' @ strings_Join nullParentInfo '''' @ ''"''
        else ''parent="'' @ strings_Join parentInfo '''' @ strings_Join secondaryParentInfo ''''
               @ strings_Join nullParentInfo '''' @ ''"'')\<close>

text \<open>Lines 233 to 246: the retry directives, and the line logged for a malformed list.\<close>

definition msoRetry :: "int \<Rightarrow> ParentConfigDSTopLevel \<Rightarrow> event list \<times> string" where
  "msoRetry atsMajorVer ds =
     (let parentRetry = ds_MSOParentRetry ds in
      if atsMajorVer \<ge> 6 \<and> parentRetry \<noteq> '''' then
        (let unavailableServerRetryResponses =
               removeSpaceReplacer (ds_MSOUnavailableServerRetryResponses ds);
             (es, t) =
               (if unavailableServerRetryResponsesValid unavailableServerRetryResponses then
                  ([], '' parent_retry='' @ parentRetry @ '' unavailable_server_retry_responses=''
                         @ unavailableServerRetryResponses)
                else
                  ((if unavailableServerRetryResponses \<noteq> '''' then
                      [Logged (''Malformed unavailable_server_retry_responses parameter '' @ sq
                                 @ unavailableServerRetryResponses @ sq @ '', not using!'')]
                    else []),
                   '' parent_retry='' @ parentRetry))
         in (es, t @ '' max_simple_retries='' @ ds_MSOMaxSimpleRetries ds
                   @ '' max_unavailable_server_retries='' @ ds_MSOMaxUnavailableServerRetries ds))
      else ([], ''''))"

text \<open>Lines 184 to 247: what is appended to \<^verbatim>\<open>text\<close> after the destination and
  the port, from the parents found for the origin.\<close>

definition msoDirectives ::
  "golib \<Rightarrow> int \<Rightarrow> ParentConfigDSTopLevel \<Rightarrow> string \<Rightarrow> ParentInfo list \<Rightarrow> event list \<times> string" where
  "msoDirectives lib atsMajorVer ds parentQStr originParents =
     (let warn = (if length originParents = 0 then
                    [Logged (''ParentInfo: delivery service '' @ ds_Name ds @ '' has no parent servers'')]
                  else []);
          rankedParents = sort_ParentInfoSortByRank lib originParents;
          parents = msoParents atsMajorVer (ds_MSOAlgorithm ds)
                      (dedupParents (promoteParents (bucketParents lib rankedParents [] [] [])));
          (es, retry) = msoRetry atsMajorVer ds
      in (warn @ es,
          parents @ '' round_robin='' @ ds_MSOAlgorithm ds @ '' qstring='' @ parentQStr
            @ '' go_direct=false parent_is_proxy=false'' @ retry @ ''\<newline>''))"

subsection \<open>Reading the database\<close>

definition getServerInfo :: "ServerInfo query_row \<Rightarrow> (failure, ServerInfo option) io" where
  "getServerInfo q =
     (case q of
        ErrNoRows \<Rightarrow> io_return None
      | RowError e \<Rightarrow> ([QueryFailed ''getServerInfo''], Inl (Error (''querying server info: '' @ e)))
      | Row s \<Rightarrow> io_return (Some s))"

definition getServerInfoByID :: "db \<Rightarrow> int \<Rightarrow> (failure, ServerInfo option) io" where
  "getServerInfoByID tx sid = getServerInfo (db_ServerInfoByID tx sid)"

definition getServerInfoByHost :: "db \<Rightarrow> string \<Rightarrow> (failure, ServerInfo option) io" where
  "getServerInfoByHost tx host = getServerInfo (db_ServerInfoByHost tx host)"

definition GetProfileParamValue ::
  "db \<Rightarrow> int \<Rightarrow> string \<Rightarrow> string \<Rightarrow> (failure, string \<times> bool) io" where
  "GetProfileParamValue tx profileID configFile name =
     (case db_ProfileParamValue tx profileID configFile name of
        ErrNoRows \<Rightarrow> io_return ('''', False)
      | RowError e \<Rightarrow> ([QueryFailed ''GetProfileParamValue''], Inl (Error (''querying: '' @ e)))
      | Row val \<Rightarrow> io_return (val, True))"

definition GetATSMajorVersion :: "golib \<Rightarrow> db \<Rightarrow> int \<Rightarrow> (failure, int) io" where
  "GetATSMajorVersion lib tx serverProfileID =
     io_bind (io_wrap ''getting profile param value: ''
                (GetProfileParamValue tx serverProfileID ''package'' ''trafficserver''))
       (\<lambda>(atsVersion0, _).
          let missing = (length atsVersion0 = 0);
              atsVersion = (if missing then DefaultATSVersion else atsVersion0);
              es = (if missing then
                      [Logged (''Parameter package.trafficserver missing for profile ''
                                 @ strconv_Itoa lib serverProfileID @ ''. Assuming version ''
                                 @ atsVersion)]
                    else [])
          in case strconv_Atoi lib (take 1 atsVersion) of
               Inl err \<Rightarrow>
                 (es, Inl (Error (''ats version parameter '' @ sq @ atsVersion @ sq
                    @ '' on this profile is not a number (config_file '' @ sq @ ''package'' @ sq
                    @ '', name '' @ sq @ ''trafficserver'' @ sq @ '')'')))
             | Inr atsMajorVer \<Rightarrow> (es, Inr atsMajorVer))"

definition headerComment :: "db \<Rightarrow> string \<Rightarrow> (failure, string) io" where
  "headerComment tx name =
     (case db_headerComment tx name of
        Inl e \<Rightarrow> ([QueryFailed ''headerComment''], Inl (Error e))
      | Inr hdr \<Rightarrow> io_return hdr)"

definition getParentConfigServerProfileParams ::
  "db \<Rightarrow> int \<Rightarrow> (failure, string \<rightharpoonup> string) io" where
  "getParentConfigServerProfileParams tx serverID =
     io_bind (tx_Query ''getParentConfigServerProfileParams''
                (db_ParentConfigServerProfileParams tx serverID))
       (rows_Scan ''getParentConfigServerProfileParams''
          (\<lambda>params (name, val). ([], params(name \<mapsto> val))) Map.empty)"

definition getParentConfigDSRaw ::
  "golib \<Rightarrow> ParentConfigDS query_rows \<Rightarrow> (failure, ParentConfigDS list) io" where
  "getParentConfigDSRaw lib q =
     io_bind (tx_Query ''getParentConfigDSRaw'' q)
       (rows_Scan ''getParentConfigDSRaw''
          (\<lambda>dses d.
             if ds_OriginFQDN d = '''' then
               ([Logged (''parent.config generation: getting parent config ds: server ''
                           @ ds_Name d @ '' has no origin, skipping!\<newline>'')], dses)
             else ([], dses @ [d\<lparr>ds_Type := tc_DSTypeFromString lib (ds_Type d)\<rparr>]))
          [])"

definition parentConfigDSesToNames :: "ParentConfigDS list \<Rightarrow> string list" where
  "parentConfigDSesToNames dses = map ds_Name dses"

definition parentConfigDSesToNamesTopLevel :: "ParentConfigDSTopLevel list \<Rightarrow> string list" where
  "parentConfigDSesToNamesTopLevel dses = map ds_Name dses"

text \<open>\<^verbatim>\<open>rows.Scan(&dsName, &pName, &pVal)\<close> stores the three columns of a row in
  this order.\<close>

definition getParentConfigDSParamsRaw ::
  "DSParamRow query_rows \<Rightarrow> (failure, string \<rightharpoonup> (string \<rightharpoonup> string)) io" where
  "getParentConfigDSParamsRaw q =
     io_bind (tx_Query ''getParentConfigDSParamsRaw'' q)
       (rows_Scan ''getParentConfigDSParamsRaw''
          (\<lambda>params row.
             let dsName = col_xml_id row; pName = col_value row; pVal = col_name row
             in ([], params(dsName \<mapsto>
                       (case params dsName of None \<Rightarrow> Map.empty | Some m \<Rightarrow> m)(pName \<mapsto> pVal))))
          Map.empty)"

definition getParentConfigDSParams :: "db \<Rightarrow> ParentConfigDS list \<Rightarrow> (failure, ParentConfigDS list) io" where
  "getParentConfigDSParams tx dses =
     io_bind (getParentConfigDSParamsRaw (db_ParentConfigDSParams tx (parentConfigDSesToNames dses)))
       (\<lambda>params.
          io_return
            (map (\<lambda>ds. case params (ds_Name ds) of
                          None \<Rightarrow> ds
                        | Some dsParams \<Rightarrow>
                            (case dsParams ParentConfigParamQStringHandling of
                               Some v \<Rightarrow> ds\<lparr>ds_QStringHandling := v\<rparr>
                             | None \<Rightarrow> ds))
               dses))"

definition setParam ::
  "(string \<rightharpoonup> string) \<Rightarrow> string \<Rightarrow> (string \<Rightarrow> 'a \<Rightarrow> 'a) \<Rightarrow> 'a \<Rightarrow> 'a" where
  "setParam dsParams name upd ds = (case dsParams name of Some v \<Rightarrow> upd v ds | None \<Rightarrow> ds)"

definition getParentConfigDSParamsTopLevel ::
  "db \<Rightarrow> ParentConfigDSTopLevel list \<Rightarrow> (failure, ParentConfigDSTopLevel list) io" where
  "getParentConfigDSParamsTopLevel tx dses =
     io_bind (getParentConfigDSParamsRaw
                (db_ParentConfigDSParamsTopLevel tx (parentConfigDSesToNamesTopLevel dses)))
       (\<lambda>params.
          io_return
            (map (\<lambda>ds. case params (ds_Name ds) of
                          None \<Rightarrow> ds
                        | Some dsParams \<Rightarrow>
                            (setParam dsParams ParentConfigParamMaxUnavailableServerRetryResponses
                               (\<lambda>v d. d\<lparr>ds_MSOMaxUnavailableServerRetries := v\<rparr>)
                            (setParam dsParams ParentConfigParamMaxSimpleRetries
                               (\<lambda>v d. d\<lparr>ds_MSOMaxSimpleRetries := v\<rparr>)
                            (setParam dsParams ParentConfigParamUnavailableServerRetryResponses
                               (\<lambda>v d. d\<lparr>ds_MSOUnavailableServerRetryResponses := v\<rparr>)
                            (setParam dsParams ParentConfigParamMSOParentRetry
                               (\<lambda>v d. d\<lparr>ds_MSOParentRetry := v\<rparr>)
                            (setParam dsParams ParentConfigParamMSOAlgorithm
                               (\<lambda>v d. d\<lparr>ds_MSOAlgorithm := v\<rparr>)
                            (setParam dsParams ParentConfigParamQStringHandling
                               (\<lambda>v d. d\<lparr>ds_QStringHandling := v\<rparr>) ds)))))))
               dses))"

definition getParentConfigDSTopLevel ::
  "golib \<Rightarrow> db \<Rightarrow> string \<Rightarrow> (failure, ParentConfigDSTopLevel list) io" where
  "getParentConfigDSTopLevel lib tx cdnName =
     io_bind (io_wrap ''getting top level raw parent config ds: ''
                (getParentConfigDSRaw lib (db_ParentConfigDSTopLevel tx cdnName)))
       (\<lambda>dses.
          let topDSes = map (\<lambda>ds. ParentConfigDS.extend ds
                                     (ParentConfigDSTopLevel.fields '''' '''' '''' '''' '''')) dses
          in io_wrap ''getting top level ds params: '' (getParentConfigDSParamsTopLevel tx topDSes))"

definition getParentConfigDS :: "golib \<Rightarrow> db \<Rightarrow> int \<Rightarrow> (failure, ParentConfigDS list) io" where
  "getParentConfigDS lib tx serverID =
     io_bind (io_wrap ''getting raw parent config ds: ''
                (getParentConfigDSRaw lib (db_ParentConfigDS tx serverID)))
       (\<lambda>dses. io_wrap ''getting ds params: '' (getParentConfigDSParams tx dses))"

definition getCDNDomainByProfileID :: "db \<Rightarrow> int \<Rightarrow> (failure, string \<times> bool) io" where
  "getCDNDomainByProfileID tx profileID =
     (case db_CDNDomainByProfileID tx profileID of
        ErrNoRows \<Rightarrow> io_return ('''', False)
      | RowError e \<Rightarrow> ([QueryFailed ''getCDNDomainByProfileID''], Inl (Error (''querying: '' @ e)))
      | Row val \<Rightarrow> io_return (val, True))"

definition getServerDSes :: "db \<Rightarrow> int list \<Rightarrow> (failure, (int \<times> int list) list) io" where
  "getServerDSes tx serverIDs =
     (if length serverIDs = 0 then io_return []
      else io_bind (tx_Query ''getServerDSes'' (db_ServerDSes tx serverIDs))
             (rows_Scan ''getServerDSes'' (\<lambda>sds (sID, dsID). ([], append_at sID dsID sds)) []))"

definition getDSOrigins :: "db \<Rightarrow> int set \<Rightarrow> (failure, int \<rightharpoonup> OriginURI) io" where
  "getDSOrigins tx dsIDs =
     (if dsIDs = {} then io_return Map.empty
      else io_bind (tx_Query ''getDSOrigins'' (db_DSOrigins tx dsIDs))
             (rows_Scan ''getDSOrigins''
                (\<lambda>origins (dsID, scheme, host, port).
                   let uri = \<lparr>org_Scheme = scheme, org_Host = host, org_Port = port\<rparr> in
                   if port = '''' then
                     (if scheme = ''http'' then ([], origins(dsID \<mapsto> uri\<lparr>org_Port := ''80''\<rparr>))
                      else if scheme = ''https'' then ([], origins(dsID \<mapsto> uri\<lparr>org_Port := ''443''\<rparr>))
                      else ([Logged (''parent.config generation: origin had unknown scheme '' @ sq
                                       @ scheme @ sq @ '' and no port; leaving port empty'')],
                            origins(dsID \<mapsto> uri)))
                   else ([], origins(dsID \<mapsto> uri)))
                Map.empty))"

text \<open>Lines 1272 to 1275: the cache of the profile so far, or the default one.\<close>

definition profileCacheOrDefault :: "(int \<rightharpoonup> ProfileCache) \<Rightarrow> int \<Rightarrow> ProfileCache" where
  "profileCacheOrDefault sParams profileID =
     (case sParams profileID of None \<Rightarrow> DefaultProfileCache | Some c \<Rightarrow> c)"

text \<open>One turn of the loop over the parameters of the profiles (lines 1271 to 1307).\<close>

definition profileParam ::
  "golib \<Rightarrow> (int \<rightharpoonup> ProfileCache) \<Rightarrow> int \<times> string \<times> string \<Rightarrow> (failure, int \<rightharpoonup> ProfileCache) io" where
  "profileParam lib sParams param =
     (case param of (profileID, name, val) \<Rightarrow>
        let profileCache = profileCacheOrDefault sParams profileID in
        if name = ParentConfigCacheParamWeight then
          (case strconv_ParseFloat lib val of
             Inl err \<Rightarrow>
               ([Logged (''parent.config generation: weight param is not a float, skipping! : '' @ err)],
                Inr (sParams(profileID \<mapsto> profileCache)))
           | Inr f \<Rightarrow> io_return (sParams(profileID \<mapsto> profileCache\<lparr>pc_Weight := f\<rparr>)))
        else if name = ParentConfigCacheParamPort then
          (case strconv_ParseInt lib val of
             Inl err \<Rightarrow>
               ([Logged (''parent.config generation: port param is not an integer, skipping! : '' @ err)],
                Inr (sParams(profileID \<mapsto> profileCache)))
           | Inr i \<Rightarrow> io_return (sParams(profileID \<mapsto> profileCache\<lparr>pc_Port := i\<rparr>)))
        else if name = ParentConfigCacheParamUseIP then
          io_return (sParams(profileID \<mapsto> profileCache\<lparr>pc_UseIP := (val = ''1'')\<rparr>))
        else if name = ParentConfigCacheParamRank then
          (case strconv_ParseInt lib val of
             Inl err \<Rightarrow>
               ([Logged (''parent.config generation: rank param is not an integer, skipping! : '' @ err)],
                Inr (sParams(profileID \<mapsto> profileCache)))
           | Inr i \<Rightarrow> io_return (sParams(profileID \<mapsto> profileCache\<lparr>pc_Rank := i\<rparr>)))
        else if name = ParentConfigCacheParamNotAParent then
          io_return (sParams(profileID \<mapsto> profileCache\<lparr>pc_NotAParent := (val \<noteq> ''false'')\<rparr>))
        else io_error (Error (''query returned unexpected param: '' @ name)))"

definition getParentConfigServerProfileParamsX ::
  "golib \<Rightarrow> db \<Rightarrow> int list \<Rightarrow> (failure, int \<rightharpoonup> ProfileCache) io" where
  "getParentConfigServerProfileParamsX lib tx serverIDs =
     io_bind (tx_Query ''getParentConfigServerProfileParamsX''
                (db_ParentConfigServerProfileParamsX tx serverIDs))
       (\<lambda>rows.
          io_bind (rows_Scan ''getParentConfigServerProfileParamsX''
                     (\<lambda>params p. ([], params @ [p])) [] rows)
            (io_foldl (profileParam lib) Map.empty))"

text \<open>The loop over the servers of the parent cache groups (lines 1104 to 1124). Reading
  \<^verbatim>\<open>orgURI.Host\<close> panics when the delivery service has no origin in \<^verbatim>\<open>dsOrigins\<close>,
  since the map holds pointers.\<close>

definition parentServer ::
  "golib \<Rightarrow> (int \<times> int list) list \<Rightarrow> (int \<rightharpoonup> OriginURI) \<Rightarrow> (int \<rightharpoonup> ProfileCache)
     \<Rightarrow> (int \<rightharpoonup> ProfileCache) \<times> (string \<times> CGPDeliveryService list) list
     \<Rightarrow> CGPDeliveryService
     \<Rightarrow> (failure, (int \<rightharpoonup> ProfileCache) \<times> (string \<times> CGPDeliveryService list) list) io" where
  "parentServer lib cgServerDSes dsOrigins profileParams acc s =
     (case acc of (profileCaches, deliveryServices0) \<Rightarrow>
        io_bind
          (if cgp_TypeName s = TypeOrigin then
             io_foldl (\<lambda>deliveryServices ds.
                         case dsOrigins ds of
                           None \<Rightarrow> io_error (Panic ''invalid memory address or nil pointer dereference'')
                         | Some orgURI \<Rightarrow> io_return (append_at (org_Host orgURI) s deliveryServices))
               deliveryServices0 (lookup_list cgServerDSes (cgp_ServerID s))
           else io_return (append_at DeliveryServicesAllParentsKey s deliveryServices0))
          (\<lambda>deliveryServices.
             case profileCaches (cgp_ProfileID s) of
               Some _ \<Rightarrow> io_return (profileCaches, deliveryServices)
             | None \<Rightarrow>
                 (case profileParams (cgp_ProfileID s) of
                    None \<Rightarrow>
                      ([Logged (''cachegroup has server with profile ''
                                  @ strconv_Itoa lib (cgp_ProfileID s)
                                  @ '' but that profile has no parameters'')],
                       Inr (profileCaches(cgp_ProfileID s \<mapsto> DefaultProfileCache), deliveryServices))
                  | Some profileCache \<Rightarrow>
                      io_return (profileCaches(cgp_ProfileID s \<mapsto> profileCache), deliveryServices))))"

definition getServerParentCacheGroupProfiles ::
  "golib \<Rightarrow> db \<Rightarrow> ServerInfo
     \<Rightarrow> (failure, (int \<rightharpoonup> ProfileCache) \<times> (string \<times> CGPDeliveryService list) list) io" where
  "getServerParentCacheGroupProfiles lib tx server =
     io_bind (tx_Query ''getServerParentCacheGroupProfiles''
                (db_ServerParentCacheGroupProfiles tx (IsTopLevelCache server) (srv_ID server)
                   (srv_CDN server)))
       (\<lambda>rows.
     io_bind (rows_Scan ''getServerParentCacheGroupProfiles'' (\<lambda>ss s. ([], ss @ [s])) [] rows)
       (\<lambda>ss.
     let cgServerIDs = map cgp_ServerID ss in
     io_bind (io_wrap ''getting cachegroup server deliveryservices: '' (getServerDSes tx cgServerIDs))
       (\<lambda>cgServerDSes.
     io_bind (io_wrap ''getting cachegroup server profile params: ''
                (getParentConfigServerProfileParamsX lib tx cgServerIDs))
       (\<lambda>profileParams.
     let allDSes = set (concat (map snd cgServerDSes)) in
     io_bind (io_wrap ''getting deliveryservice origins: '' (getDSOrigins tx allDSes))
       (\<lambda>dsOrigins.
     io_foldl (parentServer lib cgServerDSes dsOrigins profileParams) (Map.empty, []) ss)))))"

text \<open>The body of the inner loop of \<^verbatim>\<open>getParentInfo\<close> (lines 938 to 964).\<close>

definition parentInfoOf ::
  "ServerInfo \<Rightarrow> (int \<rightharpoonup> ProfileCache) \<Rightarrow> string
     \<Rightarrow> (string \<times> ParentInfo list) list \<Rightarrow> CGPDeliveryService \<Rightarrow> (string \<times> ParentInfo list) list" where
  "parentInfoOf server profileCaches originFQDN parentInfos row =
     (let profile = (case profileCaches (cgp_ProfileID row) of
                       None \<Rightarrow> zeroProfileCache | Some c \<Rightarrow> c)
      in if pc_NotAParent profile then parentInfos
         else
           (let parentInf =
                  \<lparr>pi_Host = cgp_ServerHost row,
                   pi_Port = pc_Port profile,
                   pi_Domain = cgp_Domain row,
                   pi_Weight = pc_Weight profile,
                   pi_UseIP = pc_UseIP profile,
                   pi_Rank = pc_Rank profile,
                   pi_IP = cgp_ServerIP row,
                   pi_PrimaryParent = (srv_ParentCacheGroupID server = cgp_CacheGroupID row),
                   pi_SecondaryParent = (srv_SecondaryParentCacheGroupID server = cgp_CacheGroupID row)\<rparr>;
                parentInf' = (if pi_Port parentInf < 1
                              then parentInf\<lparr>pi_Port := cgp_ServerPort row\<rparr> else parentInf)
            in append_at originFQDN parentInf' parentInfos))"

definition getParentInfo ::
  "golib \<Rightarrow> db \<Rightarrow> ServerInfo \<Rightarrow> (failure, (string \<times> ParentInfo list) list) io" where
  "getParentInfo lib tx server =
     io_bind (io_wrap ''getting CDN domain from profile ID: ''
                (getCDNDomainByProfileID tx (srv_ProfileID server)))
       (\<lambda>(serverDomain, ok).
          if \<not> ok \<or> serverDomain = '''' then io_return []
          else
            io_bind (getServerParentCacheGroupProfiles lib tx server)
              (\<lambda>(profileCaches, deliveryServices).
                 io_return
                   (foldl (\<lambda>parentInfos (originFQDN, dses).
                             foldl (parentInfoOf server profileCaches originFQDN) parentInfos dses)
                      [] deliveryServices)))"

subsection \<open>The generator\<close>

text \<open>Lines 147 to 155 and 342 to 350: the port of the scheme when the origin has none,
  given the line to log for another scheme.\<close>

definition originDefaultPort :: "golib \<Rightarrow> string \<Rightarrow> URL \<Rightarrow> event list \<times> URL" where
  "originDefaultPort lib unknownScheme orgURI =
     (if url_Port lib (url_Host orgURI) = '''' then
        (if url_Scheme orgURI = ''http'' then ([], orgURI\<lparr>url_Host := url_Host orgURI @ '':80''\<rparr>)
         else if url_Scheme orgURI = ''https'' then
           ([], orgURI\<lparr>url_Host := url_Host orgURI @ '':443''\<rparr>)
         else ([Logged unknownScheme], orgURI))
      else ([], orgURI))"

text \<open>The variables of the top-level branch that the loop over the delivery services
  changes.\<close>

record TopLevelState =
  st_text :: string
  st_textArr :: "string list"
  st_uniqueOrigins :: "string set"
  st_parentInfos :: "(string \<times> ParentInfo list) list"

text \<open>The body of the loop over the delivery services of the top-level branch
  (lines 134 to 251). The left result is the response sent before \<^verbatim>\<open>return\<close>.\<close>

definition topLevelDS ::
  "golib \<Rightarrow> db \<Rightarrow> ServerInfo \<Rightarrow> int \<Rightarrow> TopLevelState \<Rightarrow> ParentConfigDSTopLevel
     \<Rightarrow> (response, TopLevelState) io" where
  "topLevelDS lib tx serverInfo atsMajorVer st ds =
     (let parentQStr =
            (if ds_QStringHandling ds = '''' \<and> ds_MSOAlgorithm ds = AlgorithmConsistentHash
                \<and> ds_QStringIgnore ds = 0
             then ''consider'' else ''ignore'');
          orgURIStr = ds_OriginFQDN ds
      in case url_Parse lib orgURIStr of
           Inl err \<Rightarrow>
             ([Logged (''Malformed ds '' @ sq @ ds_Name ds @ sq @ '' origin  URI: '' @ sq @ orgURIStr
                         @ sq @ '', skipping! : '' @ err)], Inr st)
         | Inr orgURI0 \<Rightarrow>
             (case originDefaultPort lib
                     (''parent.config generation: fds '' @ sq @ ds_Name ds @ sq @ '' origin  URI: ''
                        @ sq @ orgURIStr @ sq @ '' is unknown scheme '' @ sq @ url_Scheme orgURI0 @ sq
                        @ '', but has no port! Using as-is! '') orgURI0 of
                (es, orgURI) \<Rightarrow>
                  io_bind (es, Inr ())
                    (\<lambda>_.
                       if ds_OriginFQDN ds \<in> st_uniqueOrigins st then io_return st
                       else
                         (let st1 = st\<lparr>st_uniqueOrigins :=
                                          insert (ds_OriginFQDN ds) (st_uniqueOrigins st)\<rparr>
                          in if ds_OriginShield ds \<noteq> '''' then
                               io_bind (io_handle 500 ''Getting server params: ''
                                          (getParentConfigServerProfileParams tx (srv_ID serverInfo)))
                                 (\<lambda>serverParams.
                                    let algorithm =
                                          (case serverParams ParentConfigParamAlgorithm of
                                             Some parentSelectAlg \<Rightarrow> ''round_robin='' @ parentSelectAlg
                                           | None \<Rightarrow> '''')
                                    in io_return
                                         (st1\<lparr>st_text := st_text st1 @ ''dest_domain=''
                                                 @ url_Hostname lib (url_Host orgURI) @ '' port=''
                                                 @ url_Port lib (url_Host orgURI) @ '' parent=''
                                                 @ ds_OriginShield ds @ '' '' @ algorithm
                                                 @ '' go_direct=true\<newline>''\<rparr>))
                             else if ds_MultiSiteOrigin ds then
                               (let st2 = st1\<lparr>st_text := st_text st1 @ ''dest_domain=''
                                                  @ url_Hostname lib (url_Host orgURI) @ '' port=''
                                                  @ url_Port lib (url_Host orgURI) @ '' ''\<rparr>
                                in if length (st_parentInfos st2) = 0 then
                                     io_bind (io_handle 500 ''Getting server parent info: ''
                                                (getParentInfo lib tx serverInfo))
                                       (\<lambda>parentInfos.
                                          case msoDirectives lib atsMajorVer ds parentQStr
                                                 (lookup_list parentInfos (url_Host orgURI)) of
                                            (es', directives) \<Rightarrow>
                                              (let text = st_text st2 @ directives
                                               in (es', Inr (st2\<lparr>st_parentInfos := parentInfos,
                                                                st_text := text,
                                                                st_textArr := st_textArr st2 @ [text]\<rparr>))))
                                   else io_return st2)
                             else io_return st1))))"

text \<open>The top-level branch (lines 123 to 254): the loop over the delivery services
  \<^verbatim>\<open>data\<close> and the text made of its lines (lines 132 to 254), then the branch with
  the query for \<^verbatim>\<open>data\<close> before it.\<close>

definition topLevelInit :: TopLevelState where
  "topLevelInit = \<lparr>st_text = '''', st_textArr = [], st_uniqueOrigins = {}, st_parentInfos = []\<rparr>"

definition topLevelText ::
  "golib \<Rightarrow> db \<Rightarrow> ServerInfo \<Rightarrow> int \<Rightarrow> string \<Rightarrow> ParentConfigDSTopLevel list
     \<Rightarrow> (response, string) io" where
  "topLevelText lib tx serverInfo atsMajorVer hdr data =
     io_bind (io_foldl (topLevelDS lib tx serverInfo atsMajorVer) topLevelInit data)
       (\<lambda>st. io_return (hdr @ strings_Join (sort (st_textArr st)) ''''))"

definition topLevel :: "golib \<Rightarrow> db \<Rightarrow> ServerInfo \<Rightarrow> int \<Rightarrow> string \<Rightarrow> (response, string) io" where
  "topLevel lib tx serverInfo atsMajorVer hdr =
     io_bind (io_handle 500 ''Getting parent config DS data: ''
                (getParentConfigDSTopLevel lib tx (srv_CDN serverInfo)))
       (topLevelText lib tx serverInfo atsMajorVer hdr)"

text \<open>Lines 284 to 317: the parent clauses that every line of the other branch shares.\<close>

definition nonTopLevelParents :: "golib \<Rightarrow> int \<Rightarrow> ParentInfo list \<Rightarrow> string \<times> string" where
  \<open>nonTopLevelParents lib atsMajorVer allParents =
     (let (parentInfo0, secondaryParentInfo0) =
            foldl (\<lambda>(parentInfo, secondaryParentInfo) parent.
                     let pTxt = Format lib parent in
                     if pi_PrimaryParent parent then (parentInfo @ [pTxt], secondaryParentInfo)
                     else if pi_SecondaryParent parent then (parentInfo, secondaryParentInfo @ [pTxt])
                     else (parentInfo, secondaryParentInfo))
              ([], []) allParents;
          (parentInfo1, secondaryParentInfo1) =
            (if length parentInfo0 = 0 then (secondaryParentInfo0, [])
             else (parentInfo0, secondaryParentInfo0));
          (parentInfo2, seen) = removeStrDuplicates parentInfo1 {};
          (secondaryParentInfo2, seen') = removeStrDuplicates secondaryParentInfo1 seen;
          parentInfo = sort parentInfo2;
          secondaryParentInfo = sort secondaryParentInfo2
      in if atsMajorVer \<ge> 6 \<and> length secondaryParentInfo > 0 then
           (''parent="'' @ strings_Join parentInfo '''' @ ''"'',
            '' secondary_parent="'' @ strings_Join secondaryParentInfo '''' @ ''"'')
         else
           (''parent="'' @ strings_Join parentInfo '''' @ strings_Join secondaryParentInfo ''''
              @ ''"'', ''''))\<close>

text \<open>The body of the loop over the delivery services of the other branch
  (lines 323 to 385); the state is \<^verbatim>\<open>textArr\<close> and the map \<^verbatim>\<open>done\<close>.\<close>

definition nonTopLevelDS ::
  "golib \<Rightarrow> string \<Rightarrow> string \<Rightarrow> string \<Rightarrow> string list \<times> (string \<rightharpoonup> string) \<Rightarrow> ParentConfigDS
     \<Rightarrow> event list \<times> (string list \<times> (string \<rightharpoonup> string))" where
  "nonTopLevelDS lib qsh parents secParents st ds =
     (case st of (textArr, done) \<Rightarrow>
        let originFQDN = ds_OriginFQDN ds in
        if originFQDN = '''' then ([], (textArr, done))
        else
          (case url_Parse lib originFQDN of
             Inl err \<Rightarrow>
               ([Logged (''Malformed ds '' @ sq @ ds_Name ds @ sq @ '' origin  URI: '' @ sq
                           @ originFQDN @ sq @ '': skipping!'' @ err)], (textArr, done))
           | Inr orgURI0 \<Rightarrow>
               (case done originFQDN of
                  Some existingDS \<Rightarrow>
                    ([Logged (''parent.config generation: duplicate origin! services '' @ sq
                                @ ds_Name ds @ sq @ '' and '' @ sq @ existingDS @ sq
                                @ '' share origin '' @ sq @ url_Host orgURI0 @ sq @ '': skipping ''
                                @ sq @ ds_Name ds @ sq @ ''!'')], (textArr, done))
                | None \<Rightarrow>
                    (case originDefaultPort lib
                            (''parent.config generation non-top-level: ds '' @ sq @ ds_Name ds @ sq
                               @ '' origin  URI: '' @ sq @ originFQDN @ sq @ '' is unknown scheme ''
                               @ sq @ url_Scheme orgURI0 @ sq @ '', but has no port! Using as-is! '')
                            orgURI0 of
                       (es, orgURI) \<Rightarrow>
                         (let dsType = ds_Type ds;
                              text =
                                (if dsType = tc_DSTypeHTTPNoCache lib \<or> dsType = tc_DSTypeHTTPLive lib
                                    \<or> dsType = tc_DSTypeDNSLive lib then
                                   ''dest_domain='' @ url_Hostname lib (url_Host orgURI) @ '' port=''
                                     @ url_Port lib (url_Host orgURI) @ '' go_direct=true'' @ ''\<newline>''
                                 else
                                   (let dsQSH = (if qsh = '''' then ds_QStringHandling ds else qsh);
                                        parentQStr0 = (if dsQSH = '''' then ''ignore'' else dsQSH);
                                        parentQStr = (if ds_QStringIgnore ds = 0 \<and> dsQSH = ''''
                                                      then ''consider'' else parentQStr0)
                                    in ''dest_domain='' @ url_Hostname lib (url_Host orgURI)
                                         @ '' port='' @ url_Port lib (url_Host orgURI) @ '' ''
                                         @ parents @ '' '' @ secParents @ '' ''
                                         @ ''round_robin=consistent_hash'' @ '' '' @ ''go_direct=false''
                                         @ '' qstring='' @ parentQStr @ ''\<newline>''))
                          in (es, (textArr @ [text], done(originFQDN \<mapsto> ds_Name ds))))))))"

text \<open>Lines 387 to 399.\<close>

definition defaultDestText :: "(string \<rightharpoonup> string) \<Rightarrow> string \<Rightarrow> string \<Rightarrow> string" where
  "defaultDestText serverParams parents secParents =
     (if lookup_string serverParams ParentConfigParamAlgorithm = AlgorithmConsistentHash then
        ''dest_domain=. '' @ parents @ secParents @ '' round_robin=consistent_hash go_direct=false''
      else ''dest_domain=. '' @ parents @ '' round_robin=urlhash go_direct=false'')
     @ (let qStr = lookup_string serverParams ParentConfigParamQString in
        if qStr \<noteq> '''' then '' qstring='' @ qStr else '''')
     @ ''\<newline>''"

text \<open>The other branch (lines 256 to 402): what follows the query for \<^verbatim>\<open>data\<close>
  (lines 266 to 402), with the loop over the sorted delivery services, then the branch
  with the query before it.\<close>

definition nonTopLevelTurn ::
  "golib \<Rightarrow> string \<Rightarrow> string \<Rightarrow> string \<Rightarrow> string list \<times> (string \<rightharpoonup> string) \<Rightarrow> ParentConfigDS
     \<Rightarrow> (response, string list \<times> (string \<rightharpoonup> string)) io" where
  "nonTopLevelTurn lib qsh parents secParents st ds =
     (case nonTopLevelDS lib qsh parents secParents st ds of (es, st') \<Rightarrow> (es, Inr st'))"

definition nonTopLevelLoop ::
  "golib \<Rightarrow> string \<Rightarrow> string \<Rightarrow> string \<Rightarrow> ParentConfigDS list
     \<Rightarrow> (response, string list \<times> (string \<rightharpoonup> string)) io" where
  "nonTopLevelLoop lib qsh parents secParents data =
     io_foldl (nonTopLevelTurn lib qsh parents secParents) ([], Map.empty) data"

definition nonTopLevelText ::
  "golib \<Rightarrow> db \<Rightarrow> ServerInfo \<Rightarrow> int \<Rightarrow> string \<Rightarrow> ParentConfigDS list \<Rightarrow> (response, string) io" where
  "nonTopLevelText lib tx serverInfo atsMajorVer hdr data =
     io_bind (io_handle 500 ''Getting server parent info (non-top-level: ''
                (getParentInfo lib tx serverInfo))
       (\<lambda>parentInfos.
     io_bind (io_handle 500 ''Getting parent config server profile params: ''
                (getParentConfigServerProfileParams tx (srv_ID serverInfo)))
       (\<lambda>serverParams.
          let qsh = lookup_string serverParams ParentConfigParamQStringHandling;
              (parents, secParents) =
                nonTopLevelParents lib atsMajorVer
                  (lookup_list parentInfos DeliveryServicesAllParentsKey)
          in io_bind
               (nonTopLevelLoop lib qsh parents secParents (sort_ParentConfigDSSortByName lib data))
               (\<lambda>(textArr, done).
                  io_return (hdr @ strings_Join (sort textArr) ''''
                               @ defaultDestText serverParams parents secParents))))"

definition nonTopLevel :: "golib \<Rightarrow> db \<Rightarrow> ServerInfo \<Rightarrow> int \<Rightarrow> string \<Rightarrow> (response, string) io" where
  "nonTopLevel lib tx serverInfo atsMajorVer hdr =
     io_bind (io_handle 500 ''Getting parent config DS data (non-top-level): ''
                (getParentConfigDS lib tx (srv_ID serverInfo)))
       (nonTopLevelText lib tx serverInfo atsMajorVer hdr)"

text \<open>
  The handler. Its input is what \<^verbatim>\<open>api.NewInfo\<close> returned: the status code and the two
  errors, or the parameter \<^verbatim>\<open>id-or-host\<close> of the request.
\<close>

definition GetParentDotConfig ::
  "golib \<Rightarrow> db \<Rightarrow> (int \<times> string option \<times> string option) + string \<Rightarrow> event list \<times> response" where
  "GetParentDotConfig lib tx newInfo =
     (case
        (case newInfo of
           Inl (errCode, userErr, sysErr) \<Rightarrow> io_error (HandleErr errCode userErr sysErr)
         | Inr param \<Rightarrow>
             (let idOrHost = strings_TrimSuffix param ''.json'' in
              io_bind (io_handle 500 ''Getting server info: ''
                         (case strconv_Atoi lib idOrHost of
                            Inl err \<Rightarrow> getServerInfoByHost tx idOrHost
                          | Inr sid \<Rightarrow> getServerInfoByID tx sid))
                (\<lambda>found.
                   case found of
                     None \<Rightarrow> io_error (HandleErr 404 (Some ''server not found'') None)
                   | Some serverInfo \<Rightarrow>
                       io_bind (io_handle 500 ''Getting ATS major version: ''
                                  (GetATSMajorVersion lib tx (srv_ProfileID serverInfo)))
                         (\<lambda>atsMajorVer.
                       io_bind (io_handle 500 ''Getting header comment: ''
                                  (headerComment tx (srv_HostName serverInfo)))
                         (\<lambda>hdr.
                            if IsTopLevelCache serverInfo
                            then topLevel lib tx serverInfo atsMajorVer hdr
                            else nonTopLevel lib tx serverInfo atsMajorVer hdr)))))
      of (es, Inl r) \<Rightarrow> (es, r)
       | (es, Inr text) \<Rightarrow> (es, Write text))"

subsection \<open>Notions used by the properties\<close>

text \<open>The origin after lines 147 to 155, whatever is logged.\<close>

definition orgURIWithPort :: "golib \<Rightarrow> URL \<Rightarrow> URL" where
  "orgURIWithPort lib orgURI = snd (originDefaultPort lib '''' orgURI)"

text \<open>The value of \<^verbatim>\<open>parentQStr\<close> after lines 135 to 138.\<close>

definition topLevelQStr :: "ParentConfigDSTopLevel \<Rightarrow> string" where
  "topLevelQStr ds =
     (if ds_QStringHandling ds = '''' \<and> ds_MSOAlgorithm ds = AlgorithmConsistentHash
         \<and> ds_QStringIgnore ds = 0
      then ''consider'' else ''ignore'')"

text \<open>The set of strings that a regular expression denotes; \<open>matches\<close> decides it.\<close>

fun lang :: "regex \<Rightarrow> string set" where
  "lang Zero = {}"
| "lang One = {[]}"
| "lang (Atom c) = {[c]}"
| "lang Digit = {[c] | c. is_digit c}"
| "lang (Alt r s) = lang r \<union> lang s"
| "lang (Seq r s) = {u @ v | u v. u \<in> lang r \<and> v \<in> lang s}"
| "lang (Star r) = {concat ws | ws. set ws \<subseteq> lang r}"

text \<open>A 3-digit code, as the specification of the retry responses words it, and the
  group that the pattern of the retry responses repeats.\<close>

definition is_code :: "string \<Rightarrow> bool" where
  "is_code c = (length c = 3 \<and> list_all is_digit c)"

definition retryResponsesGroup :: regex where
  "retryResponsesGroup = Seq (Opt (Atom CHR '':'')) (Seq (Rep 3 Digit) (Atom CHR '',''))"

text \<open>The delivery services of a list whose \<^verbatim>\<open>OriginFQDN\<close> is not in \<open>seen\<close> and is
  not that of an earlier delivery service of the list: the first-seen ones.\<close>

fun firstByOrigin ::
  "string set \<Rightarrow> ('a ParentConfigDS_scheme) list \<Rightarrow> ('a ParentConfigDS_scheme) list" where
  "firstByOrigin seen [] = []"
| "firstByOrigin seen (ds # dses) =
     (if ds_OriginFQDN ds \<in> seen then firstByOrigin seen dses
      else ds # firstByOrigin (insert (ds_OriginFQDN ds) seen) dses)"

text \<open>A query failed during a computation when its events hold a \<open>QueryFailed\<close>. A
  computation is fail-safe, for a property of errors, when a failed query makes it
  end with such an error.\<close>

fun is_query_failure :: "event \<Rightarrow> bool" where
  "is_query_failure (QueryFailed q) = True"
| "is_query_failure (Logged l) = False"

definition query_failed :: "event list \<Rightarrow> bool" where
  "query_failed es = list_ex is_query_failure es"

definition failsafe :: "('e \<Rightarrow> bool) \<Rightarrow> ('e, 'a) io \<Rightarrow> bool" where
  "failsafe P m = (query_failed (fst m) \<longrightarrow> (case snd m of Inl e \<Rightarrow> P e | Inr x \<Rightarrow> False))"

fun is_Error :: "failure \<Rightarrow> bool" where
  "is_Error (Error e) = True"
| "is_Error (Panic p) = False"

fun is_server_error :: "response \<Rightarrow> bool" where
  "is_server_error (HandleErr code userErr sysErr) = (code = 500 \<and> userErr = None \<and> sysErr \<noteq> None)"
| "is_server_error (Write text) = False"
| "is_server_error (Panicked p) = False"

subsection \<open>An instance of the library\<close>

text \<open>
  An instance of the library functions, for running the generator on examples. It
  covers decimal integers and decimal fractions, and URLs of the form
  \<^verbatim>\<open>scheme://host[:port][/path]\<close>; the sorts are insertion sorts, which are stable.
\<close>

definition digit_val :: "char \<Rightarrow> nat" where
  "digit_val c = of_char c - 48"

definition digits_val :: "string \<Rightarrow> nat" where
  "digits_val s = foldl (\<lambda>n c. 10 * n + digit_val c) 0 s"

definition all_digits :: "string \<Rightarrow> bool" where
  "all_digits s = (s \<noteq> [] \<and> list_all is_digit s)"

definition ex_ParseInt :: "string \<Rightarrow> string + int" where
  "ex_ParseInt s =
     (case s of
        [] \<Rightarrow> Inl ''invalid syntax''
      | c # cs \<Rightarrow>
          if c = CHR ''-'' \<and> all_digits cs then Inr (- int (digits_val cs))
          else if c = CHR ''+'' \<and> all_digits cs then Inr (int (digits_val cs))
          else if all_digits s then Inr (int (digits_val s))
          else Inl ''invalid syntax'')"

fun nat_digits :: "nat \<Rightarrow> nat \<Rightarrow> string" where
  "nat_digits 0 n = ''''"
| "nat_digits (Suc fuel) n =
     (if n < 10 then [char_of (48 + n)] else nat_digits fuel (n div 10) @ [char_of (48 + n mod 10)])"

definition ex_Itoa :: "int \<Rightarrow> string" where
  "ex_Itoa i = (if i < 0 then ''-'' @ nat_digits 20 (nat (- i)) else nat_digits 20 (nat i))"

definition ex_ParseFloat :: "string \<Rightarrow> string + rat" where
  "ex_ParseFloat s =
     (let ip = takeWhile (\<lambda>c. c \<noteq> CHR ''.'') s;
          fp = drop (length ip + 1) s
      in if all_digits ip \<and> (fp = [] \<and> CHR ''.'' \<notin> set s \<or> all_digits fp)
         then Inr (of_nat (digits_val ip) + of_nat (digits_val fp) / 10 ^ length fp)
         else Inl ''invalid syntax'')"

fun frac_digits :: "nat \<Rightarrow> rat \<Rightarrow> string" where
  "frac_digits 0 r = ''''"
| "frac_digits (Suc fuel) r =
     (if r = 0 then ''''
      else char_of (48 + nat \<lfloor>10 * r\<rfloor>) # frac_digits fuel (10 * r - of_int \<lfloor>10 * r\<rfloor>))"

definition ex_FormatFloat :: "rat \<Rightarrow> string" where
  "ex_FormatFloat r =
     (let a = \<bar>r\<bar>; ip = nat \<lfloor>a\<rfloor>; fp = a - of_nat ip
      in (if r < 0 then ''-'' else '''') @ nat_digits 20 ip
           @ (if fp = 0 then '''' else ''.'' @ frac_digits 20 fp))"

definition ex_url_Port :: "string \<Rightarrow> string" where
  "ex_url_Port host =
     (let p = rev (takeWhile (\<lambda>c. c \<noteq> CHR '':'') (rev host))
      in if CHR '':'' \<in> set host \<and> all_digits p then p else '''')"

definition ex_url_Hostname :: "string \<Rightarrow> string" where
  "ex_url_Hostname host =
     (let p = rev (takeWhile (\<lambda>c. c \<noteq> CHR '':'') (rev host))
      in if CHR '':'' \<in> set host \<and> (p = [] \<or> all_digits p)
         then take (length host - length p - 1) host else host)"

definition ex_url_Parse :: "string \<Rightarrow> string + URL" where
  "ex_url_Parse s =
     (let scheme = takeWhile (\<lambda>c. c \<noteq> CHR '':'') s;
          rest = drop (length scheme) s
      in if scheme = [] \<and> rest \<noteq> [] then Inl ''missing protocol scheme''
         else if take 3 rest = ''://'' then
           Inr \<lparr>url_Scheme = scheme, url_Host = takeWhile (\<lambda>c. c \<noteq> CHR ''/'') (drop 3 rest)\<rparr>
         else Inr \<lparr>url_Scheme = (if rest = [] then '''' else scheme), url_Host = ''''\<rparr>)"

definition ex_DSTypeFromString :: "string \<Rightarrow> string" where
  "ex_DSTypeFromString s =
     (if s \<in> set [''HTTP'', ''DNS'', ''HTTP_NO_CACHE'', ''HTTP_LIVE'', ''HTTP_LIVE_NATNL'',
                   ''DNS_LIVE_NATNL'', ''DNS_LIVE'', ''ANY_MAP'', ''STEERING'', ''CLIENT_STEERING'']
      then s else '''')"

definition ex_lib :: golib where
  "ex_lib =
     \<lparr>url_Parse = ex_url_Parse,
      url_Hostname = ex_url_Hostname,
      url_Port = ex_url_Port,
      strconv_Atoi = ex_ParseInt,
      strconv_Itoa = ex_Itoa,
      strconv_ParseInt = ex_ParseInt,
      strconv_ParseFloat = ex_ParseFloat,
      strconv_FormatFloat = ex_FormatFloat,
      sort_ParentInfoSortByRank = sort_key pi_Rank,
      sort_ParentConfigDSSortByName = sort_key ds_Name,
      tc_DSTypeFromString = ex_DSTypeFromString,
      tc_DSTypeHTTPNoCache = ''HTTP_NO_CACHE'',
      tc_DSTypeHTTPLive = ''HTTP_LIVE'',
      tc_DSTypeDNSLive = ''DNS_LIVE''\<rparr>"

subsection \<open>Example data\<close>

text \<open>A server with the given parent cache group, parent type and secondary parent
  cache group, in the CDN \<open>cdn1\<close>; a top-level cache; a cache that is not top-level.\<close>

definition ex_server :: "int \<Rightarrow> string \<Rightarrow> int \<Rightarrow> ServerInfo" where
  "ex_server parentID parentType secondaryID =
     \<lparr>srv_CacheGroupID = 10, srv_CDN = ''cdn1'', srv_CDNID = 1, srv_DomainName = ''cdn1.example'',
      srv_HostName = ''mid1'', srv_ID = 1, srv_IP = ''192.0.2.1'',
      srv_ParentCacheGroupID = parentID, srv_ParentCacheGroupType = parentType,
      srv_ProfileID = 7, srv_ProfileName = ''MID1'', srv_Port = 80,
      srv_SecondaryParentCacheGroupID = secondaryID, srv_SecondaryParentCacheGroupType = '''',
      srv_Type = ''MID''\<rparr>"

definition ex_top_server :: ServerInfo where
  "ex_top_server = ex_server 20 ''ORG_LOC'' 21"

definition ex_edge_server :: ServerInfo where
  "ex_edge_server = ex_server 30 ''MID_LOC'' 31"

text \<open>A delivery service with the given name, origin, multi-site-origin flag and type.\<close>

definition ex_ds :: "string \<Rightarrow> string \<Rightarrow> bool \<Rightarrow> string \<Rightarrow> ParentConfigDS" where
  "ex_ds name origin mso type =
     \<lparr>ds_Name = name, ds_QStringIgnore = 0, ds_OriginFQDN = origin, ds_MultiSiteOrigin = mso,
      ds_OriginShield = '''', ds_Type = type, ds_QStringHandling = ''''\<rparr>"

text \<open>A multi-site-origin delivery service with the given name, origin, query-string
  handling, algorithm, retry policy and retry responses.\<close>

definition ex_mso ::
  "string \<Rightarrow> string \<Rightarrow> string \<Rightarrow> string \<Rightarrow> string \<Rightarrow> string \<Rightarrow> ParentConfigDSTopLevel" where
  "ex_mso name origin qsh algorithm retry responses =
     \<lparr>ds_Name = name, ds_QStringIgnore = 0, ds_OriginFQDN = origin, ds_MultiSiteOrigin = True,
      ds_OriginShield = '''', ds_Type = ''HTTP'', ds_QStringHandling = qsh,
      ds_MSOAlgorithm = algorithm, ds_MSOParentRetry = retry,
      ds_MSOUnavailableServerRetryResponses = responses,
      ds_MSOMaxSimpleRetries = ''1'', ds_MSOMaxUnavailableServerRetries = ''2''\<rparr>"

text \<open>An origin server with the given id, host name and cache group, in the profile 8,
  and the parent that \<^verbatim>\<open>getParentInfo\<close> builds from such a server when the profile has
  no parameters.\<close>

definition ex_org :: "int \<Rightarrow> string \<Rightarrow> int \<Rightarrow> CGPDeliveryService" where
  "ex_org sid host cacheGroup =
     \<lparr>cgp_ServerID = sid, cgp_ServerHost = host, cgp_ServerIP = ''192.0.2.9'', cgp_ServerPort = 80,
      cgp_CacheGroupID = cacheGroup, cgp_Status = 3, cgp_Type = 4, cgp_ProfileID = 8, cgp_CDN = 1,
      cgp_TypeName = ''ORG'', cgp_Domain = ''org.example''\<rparr>"

definition ex_parent :: "string \<Rightarrow> bool \<Rightarrow> bool \<Rightarrow> ParentInfo" where
  "ex_parent host primary secondary =
     \<lparr>pi_Host = host, pi_Port = 80, pi_Domain = ''org.example'', pi_Weight = 0.999,
      pi_UseIP = False, pi_Rank = 1, pi_IP = ''192.0.2.9'', pi_PrimaryParent = primary,
      pi_SecondaryParent = secondary\<rparr>"

text \<open>
  A database in which every query succeeds: it holds one cache server, found by its
  id or by its host name, whose profile has ATS 6.2.0; the delivery services of its
  CDN and of the server; the parameters of the delivery services; the servers of the
  parent cache groups, their delivery services, and the origins of these.
\<close>

definition ex_db ::
  "ServerInfo \<Rightarrow> ParentConfigDS list \<Rightarrow> DSParamRow list \<Rightarrow> CGPDeliveryService list
     \<Rightarrow> (int \<times> int) list \<Rightarrow> (int \<times> string \<times> string \<times> string) list \<Rightarrow> db" where
  "ex_db server dses dsParams parentServers serverDSes origins =
     \<lparr>db_ServerInfoByID = (\<lambda>i. if i = srv_ID server then Row server else ErrNoRows),
      db_ServerInfoByHost = (\<lambda>h. if h = srv_HostName server then Row server else ErrNoRows),
      db_ProfileParamValue = (\<lambda>p f n. if p = srv_ProfileID server \<and> f = ''package''
                                          \<and> n = ''trafficserver'' then Row ''6.2.0'' else ErrNoRows),
      db_headerComment = (\<lambda>h. Inr (''# DO NOT EDIT - Generated for '' @ h @ ''\<newline>'')),
      db_ParentConfigDS = (\<lambda>i. Rows (map Inr dses)),
      db_ParentConfigDSTopLevel = (\<lambda>c. Rows (map Inr dses)),
      db_ParentConfigDSParams = (\<lambda>ns. Rows (map Inr dsParams)),
      db_ParentConfigDSParamsTopLevel = (\<lambda>ns. Rows (map Inr dsParams)),
      db_ParentConfigServerProfileParams = (\<lambda>i. Rows []),
      db_CDNDomainByProfileID = (\<lambda>p. Row ''cdn1.example''),
      db_ServerParentCacheGroupProfiles = (\<lambda>t i c. Rows (map Inr parentServers)),
      db_ServerDSes = (\<lambda>is. Rows (map Inr serverDSes)),
      db_ParentConfigServerProfileParamsX = (\<lambda>is. Rows []),
      db_DSOrigins = (\<lambda>is. Rows (map Inr origins))\<rparr>"

text \<open>The top-level cache, whose parent cache group 20 and secondary parent cache group
  21 hold one origin server each, both serving the delivery service 1, whose origin is
  recorded as \<open>o1.example:80\<close>; and the same cache without servers in the parent
  cache groups.\<close>

definition ex_db_two_parents :: db where
  "ex_db_two_parents =
     ex_db ex_top_server [] [] [ex_org 101 ''org1'' 20, ex_org 102 ''org2'' 21]
       [(101, 1), (102, 1)] [(1, ''http'', ''o1.example:80'', '''')]"

definition ex_db_no_parents :: db where
  "ex_db_no_parents = ex_db ex_top_server [] [] [] [] []"

text \<open>The top-level cache with two multi-site-origin delivery services, first with one
  origin server in its parent cache group, then with none, then with the first and a
  failing query for the origins of the delivery services.\<close>

definition ex_db_two_mso :: db where
  "ex_db_two_mso =
     ex_db ex_top_server
       [ex_ds ''ds1'' ''http://o1.example'' True ''HTTP'',
        ex_ds ''ds2'' ''http://o2.example'' True ''HTTP'']
       [] [ex_org 101 ''org1'' 20] [(101, 1)] [(1, ''http'', ''o1.example'', '''')]"

definition ex_db_two_mso_no_parents :: db where
  "ex_db_two_mso_no_parents =
     ex_db ex_top_server
       [ex_ds ''ds1'' ''http://o1.example'' True ''HTTP'',
        ex_ds ''ds2'' ''http://o2.example'' True ''HTTP'']
       [] [] [] []"

definition ex_db_origins_fail :: db where
  "ex_db_origins_fail = ex_db_two_mso\<lparr>db_DSOrigins := \<lambda>dsIDs. QueryError ''connection reset''\<rparr>"

text \<open>The cache that is not top-level, with two delivery services whose origins
  \<open>http://o.example\<close> and \<open>http://o.example:80\<close> are the same host and port.\<close>

definition ex_db_same_host :: db where
  "ex_db_same_host =
     ex_db ex_edge_server
       [ex_ds ''ds1'' ''http://o.example'' False ''HTTP'',
        ex_ds ''ds2'' ''http://o.example:80'' False ''HTTP'']
       [] [] [] []"

section \<open>Properties\<close>

subsection \<open>Removing duplicates\<close>

lemma remdups_snoc: "remdups (xs @ [p]) = remdups (filter (\<lambda>x. x \<noteq> p) xs) @ [p]"
  by (induction xs) auto

lemma first_occurrences_Cons:
  "rev (remdups (rev (filter (\<lambda>x. x \<notin> seen) pis) @ [p]))
     = p # rev (remdups (rev (filter (\<lambda>x. x \<notin> insert p seen) pis)))"
proof -
  have e: "filter (\<lambda>x. x \<notin> insert p seen) pis
             = filter (\<lambda>x. x \<noteq> p) (filter (\<lambda>x. x \<notin> seen) pis)"
    by (auto intro: filter_cong)
  show ?thesis unfolding e remdups_snoc rev_filter by simp
qed

lemma removeStrDuplicates_loop_fst:
  "fst (removeStrDuplicates_loop pis npi seen) =
     npi @ rev (remdups (rev (filter (\<lambda>p. p \<notin> seen) pis)))"
proof (induction pis arbitrary: npi seen)
  case Nil
  show ?case by simp
next
  case (Cons p pis)
  show ?case
  proof (cases "p \<in> seen")
    case True
    then show ?thesis using Cons.IH by simp
  next
    case False
    then show ?thesis using Cons.IH first_occurrences_Cons [of seen pis p] by simp
  qed
qed

lemma removeStrDuplicates_loop_snd:
  "snd (removeStrDuplicates_loop pis npi seen) = seen \<union> set pis"
  by (induction pis arbitrary: npi seen) auto

lemma removeStrDuplicates_loop_seen:
  "set pis \<subseteq> seen \<Longrightarrow> removeStrDuplicates_loop pis npi seen = (npi, seen)"
  by (induction pis arbitrary: npi) auto

text \<open>
  C9. For every list \<open>pi\<close> and every set \<open>seen\<close>, \<open>removeStrDuplicates\<close> returns the
  elements of \<open>pi\<close> that are not in \<open>seen\<close>, each at its first occurrence and in the
  original order (that is the list \<open>rev (remdups (rev \<dots>))\<close>, since \<open>remdups\<close>
  keeps last occurrences), together with \<open>seen\<close> extended by exactly the returned
  elements; run again on its own output and the returned set it returns the empty list.
\<close>

theorem removeStrDuplicates_first_occurrences:
  "fst (removeStrDuplicates pis seen) = rev (remdups (rev (filter (\<lambda>p. p \<notin> seen) pis)))
   \<and> distinct (fst (removeStrDuplicates pis seen))
   \<and> set (fst (removeStrDuplicates pis seen)) = set pis - seen
   \<and> snd (removeStrDuplicates pis seen) = seen \<union> set (fst (removeStrDuplicates pis seen))
   \<and> removeStrDuplicates (fst (removeStrDuplicates pis seen)) (snd (removeStrDuplicates pis seen))
       = ([], snd (removeStrDuplicates pis seen))"
proof -
  let ?r = "removeStrDuplicates pis seen"
  have f: "fst ?r = rev (remdups (rev (filter (\<lambda>p. p \<notin> seen) pis)))"
    by (simp add: removeStrDuplicates_def removeStrDuplicates_loop_fst)
  have d: "distinct (fst ?r)" by (simp add: f)
  have s: "set (fst ?r) = set pis - seen" by (auto simp: f)
  have sn: "snd ?r = seen \<union> set pis"
    by (simp add: removeStrDuplicates_def removeStrDuplicates_loop_snd)
  have sn': "snd ?r = seen \<union> set (fst ?r)" using s sn by auto
  have "set (fst ?r) \<subseteq> snd ?r" using sn' by auto
  then have again: "removeStrDuplicates (fst ?r) (snd ?r) = ([], snd ?r)"
    by (simp add: removeStrDuplicates_def removeStrDuplicates_loop_seen)
  show ?thesis using f d s sn' again by simp
qed

theorem removeStrDuplicates_first_occurrences_witness:
  "removeStrDuplicates [''b'', ''a'', ''b'', ''c'', ''a''] {''c''} = ([''b'', ''a''], {''c'', ''b'', ''a''})
   \<and> removeStrDuplicates [''b'', ''a''] {''c'', ''b'', ''a''} = ([], {''c'', ''b'', ''a''})"
proof -
  have e: "removeStrDuplicates [''b'', ''a'', ''b'', ''c'', ''a''] {''c''}
           = ([''b'', ''a''], {''c'', ''b'', ''a''})"
    by (simp add: removeStrDuplicates_def insert_commute)
  have "removeStrDuplicates (fst (removeStrDuplicates [''b'', ''a'', ''b'', ''c'', ''a''] {''c''}))
          (snd (removeStrDuplicates [''b'', ''a'', ''b'', ''c'', ''a''] {''c''}))
        = ([], snd (removeStrDuplicates [''b'', ''a'', ''b'', ''c'', ''a''] {''c''}))"
    using removeStrDuplicates_first_occurrences
      [of "[''b'', ''a'', ''b'', ''c'', ''a'']" "{''c''}"]
    by blast
  then have "removeStrDuplicates [''b'', ''a''] {''c'', ''b'', ''a''} = ([], {''c'', ''b'', ''a''})"
    unfolding e fst_conv snd_conv .
  with e show ?thesis by blast
qed

subsection \<open>Top-level caches\<close>

text \<open>
  C2, as stated: every server whose \<open>ParentCacheGroupID\<close> is 0, or whose parent
  cache group has the type \<open>ORG_LOC\<close>, is a top-level cache, whatever its secondary
  parent. The server below has \<open>ParentCacheGroupID = 0\<close>, no parent type and the
  secondary parent \<open>-1\<close>, and is not a top-level cache.
\<close>

theorem IsTopLevelCache_counterexample:
  "srv_ParentCacheGroupID (ex_server 0 '''' (- 1)) = 0
   \<and> \<not> IsTopLevelCache (ex_server 0 '''' (- 1))"
  by (simp add: IsTopLevelCache_def ex_server_def TypeCacheGroupOrigin_def)

text \<open>
  C2, amended: every server whose parent cache group has the type \<open>ORG_LOC\<close>, or
  whose \<open>ParentCacheGroupID\<close> is 0 and whose \<open>SecondaryParentCacheGroupID\<close> is 0
  as well, is a top-level cache.
\<close>

theorem IsTopLevelCache_holds:
  "srv_ParentCacheGroupType s = TypeCacheGroupOrigin
     \<or> (srv_ParentCacheGroupID s = 0 \<and> srv_SecondaryParentCacheGroupID s = 0)
   \<Longrightarrow> IsTopLevelCache s"
  by (auto simp: IsTopLevelCache_def)

theorem IsTopLevelCache_holds_witness:
  "srv_ParentCacheGroupType (ex_server 3 ''ORG_LOC'' 4) = TypeCacheGroupOrigin
   \<and> IsTopLevelCache (ex_server 3 ''ORG_LOC'' 4)
   \<and> srv_ParentCacheGroupID (ex_server 0 ''MID_LOC'' 0) = 0
   \<and> srv_SecondaryParentCacheGroupID (ex_server 0 ''MID_LOC'' 0) = 0
   \<and> IsTopLevelCache (ex_server 0 ''MID_LOC'' 0)"
proof -
  have a: "srv_ParentCacheGroupType (ex_server 3 ''ORG_LOC'' 4) = TypeCacheGroupOrigin"
    by (simp add: ex_server_def TypeCacheGroupOrigin_def)
  have b: "srv_ParentCacheGroupID (ex_server 0 ''MID_LOC'' 0) = 0"
    "srv_SecondaryParentCacheGroupID (ex_server 0 ''MID_LOC'' 0) = 0"
    by (simp_all add: ex_server_def)
  show ?thesis
    using a b IsTopLevelCache_holds [of "ex_server 3 ''ORG_LOC'' 4"]
      IsTopLevelCache_holds [of "ex_server 0 ''MID_LOC'' 0"]
    by blast
qed

subsection \<open>Promotion of the parent lists\<close>

text \<open>
  C4. In the bucketing of the multi-site-origin path: when the primary list is empty
  and the secondary list is not, the secondary list becomes the primary one and the
  secondary list becomes empty; when both are empty, the null list becomes the primary
  one and the null list becomes empty; when the primary list is not empty, no list
  changes.
\<close>

theorem promoteParents_cases:
  "(parentInfo = [] \<and> secondaryParentInfo \<noteq> [] \<longrightarrow>
      promoteParents (parentInfo, secondaryParentInfo, nullParentInfo)
        = (secondaryParentInfo, [], nullParentInfo))
   \<and> (parentInfo = [] \<and> secondaryParentInfo = [] \<longrightarrow>
      promoteParents (parentInfo, secondaryParentInfo, nullParentInfo) = (nullParentInfo, [], []))
   \<and> (parentInfo \<noteq> [] \<longrightarrow>
      promoteParents (parentInfo, secondaryParentInfo, nullParentInfo)
        = (parentInfo, secondaryParentInfo, nullParentInfo))"
  by (simp add: promoteParents_def)

theorem promoteParents_cases_witness:
  "promoteParents ([], [''s:80|1;''], [''n:80|1;'']) = ([''s:80|1;''], [], [''n:80|1;''])
   \<and> promoteParents ([], [], [''n:80|1;'']) = ([''n:80|1;''], [], [])
   \<and> promoteParents ([''p:80|1;''], [''s:80|1;''], [''n:80|1;''])
       = ([''p:80|1;''], [''s:80|1;''], [''n:80|1;''])"
  using promoteParents_cases [of "[]" "[''s:80|1;'']" "[''n:80|1;'']"]
    promoteParents_cases [of "[]" "[]" "[''n:80|1;'']"]
    promoteParents_cases [of "[''p:80|1;'']" "[''s:80|1;'']" "[''n:80|1;'']"]
  by simp

subsection \<open>The parameters of a profile\<close>



subsection \<open>Validation of the retry responses\<close>

lemma nullable_lang: "nullable r \<longleftrightarrow> [] \<in> lang r"
proof (induction r)
  case (Star r)
  show ?case by (auto intro!: exI[of _ "[]"])
qed auto

lemma star_Cons:
  "(c # w \<in> lang (Star r)) \<longleftrightarrow> (\<exists>u v. w = u @ v \<and> c # u \<in> lang r \<and> v \<in> lang (Star r))"
proof
  assume "c # w \<in> lang (Star r)"
  then obtain ws where ws: "c # w = concat ws" "set ws \<subseteq> lang r" by auto
  then show "\<exists>u v. w = u @ v \<and> c # u \<in> lang r \<and> v \<in> lang (Star r)"
  proof (induction ws)
    case Nil
    then show ?case by simp
  next
    case (Cons x xs)
    show ?case
    proof (cases x)
      case Nil
      with Cons show ?thesis by simp
    next
      case (Cons d u)
      with Cons.prems have "w = u @ concat xs" "c # u \<in> lang r" "set xs \<subseteq> lang r" by auto
      then show ?thesis by auto
    qed
  qed
next
  assume "\<exists>u v. w = u @ v \<and> c # u \<in> lang r \<and> v \<in> lang (Star r)"
  then obtain u ws where "w = u @ concat ws" "c # u \<in> lang r" "set ws \<subseteq> lang r" by auto
  then have "c # w = concat ((c # u) # ws) \<and> set ((c # u) # ws) \<subseteq> lang r" by simp
  then show "c # w \<in> lang (Star r)" unfolding lang.simps by blast
qed

lemma deriv_lang: "w \<in> lang (deriv c r) \<longleftrightarrow> c # w \<in> lang r"
proof (induction r arbitrary: w)
  case (Seq r s)
  have "c # w \<in> lang (Seq r s) \<longleftrightarrow>
          ([] \<in> lang r \<and> c # w \<in> lang s) \<or> (\<exists>u v. w = u @ v \<and> c # u \<in> lang r \<and> v \<in> lang s)"
    by (auto simp: Cons_eq_append_conv)
  then show ?case using Seq by (auto simp: nullable_lang)
next
  case (Star r)
  have "w \<in> lang (deriv c (Star r)) \<longleftrightarrow> (\<exists>u v. w = u @ v \<and> c # u \<in> lang r \<and> v \<in> lang (Star r))"
    using Star by auto
  then show ?case using star_Cons by blast
qed auto

lemma matches_lang: "matches r s \<longleftrightarrow> s \<in> lang r"
  by (induction s arbitrary: r) (auto simp: nullable_lang deriv_lang)

lemma Join_butlast:
  "xs \<noteq> [] \<Longrightarrow> strings_Join xs sep = concat (map (\<lambda>c. c @ sep) (butlast xs)) @ last xs"
  by (induction xs sep rule: strings_Join.induct) auto

lemma lang_SeqI: "u \<in> lang r \<Longrightarrow> v \<in> lang s \<Longrightarrow> u @ v \<in> lang (Seq r s)"
  by auto

lemma lang_SeqE: "w \<in> lang (Seq r s) \<Longrightarrow> \<exists>u v. w = u @ v \<and> u \<in> lang r \<and> v \<in> lang s"
  by auto

lemma lang_code: "c \<in> lang (Rep 3 Digit) \<longleftrightarrow> is_code c"
proof
  assume "c \<in> lang (Rep 3 Digit)"
  then show "is_code c" by (auto simp: eval_nat_numeral is_code_def)
next
  assume "is_code c"
  then obtain x y z where c: "c = [x, y, z]" and d: "is_digit x" "is_digit y" "is_digit z"
    by (cases c; cases "tl c"; cases "tl (tl c)") (auto simp: is_code_def)
  have "[x] @ [y] @ [z] @ [] \<in> lang (Seq Digit (Seq Digit (Seq Digit One)))"
    using d by (intro lang_SeqI) auto
  then show "c \<in> lang (Rep 3 Digit)" by (simp add: c eval_nat_numeral)
qed

lemma lang_group: "w \<in> lang retryResponsesGroup \<longleftrightarrow> (\<exists>c. is_code c \<and> (w = c @ '','' \<or> w = '':'' @ c @ '',''))"
proof
  assume "w \<in> lang retryResponsesGroup"
  then obtain u v where "w = u @ v" "u \<in> lang (Opt (Atom CHR '':''))"
    "v \<in> lang (Seq (Rep 3 Digit) (Atom CHR '',''))"
    unfolding retryResponsesGroup_def using lang_SeqE by blast
  moreover then obtain c where "v = c @ '',''" "c \<in> lang (Rep 3 Digit)" by auto
  ultimately show "\<exists>c. is_code c \<and> (w = c @ '','' \<or> w = '':'' @ c @ '','')"
    by (auto simp: Opt_def lang_code)
next
  assume "\<exists>c. is_code c \<and> (w = c @ '','' \<or> w = '':'' @ c @ '','')"
  then obtain c where c: "is_code c" and w: "w = [] @ c @ '','' \<or> w = '':'' @ c @ '',''" by auto
  have t: "c @ '','' \<in> lang (Seq (Rep 3 Digit) (Atom CHR '',''))"
    using c by (intro lang_SeqI) (auto simp: lang_code)
  have "[] \<in> lang (Opt (Atom CHR '':''))" "'':'' \<in> lang (Opt (Atom CHR '':''))"
    by (auto simp: Opt_def)
  then have "[] @ c @ '','' \<in> lang retryResponsesGroup" "'':'' @ c @ '','' \<in> lang retryResponsesGroup"
    unfolding retryResponsesGroup_def using t by (blast intro: lang_SeqI)+
  then show "w \<in> lang retryResponsesGroup" using w by auto
qed

lemma lang_retry:
  "s \<in> lang retryResponsesRegex \<longleftrightarrow>
     (\<exists>g ws c. s = g @ concat ws @ c \<and> g \<in> lang retryResponsesGroup \<and> set ws \<subseteq> lang retryResponsesGroup \<and> is_code c)"
proof
  assume "s \<in> lang retryResponsesRegex"
  then obtain u c where s: "s = u @ c" and u: "u \<in> lang (Seq retryResponsesGroup (Star retryResponsesGroup))"
    and c: "c \<in> lang (Rep 3 Digit)"
    unfolding retryResponsesRegex_def Plus_def retryResponsesGroup_def [symmetric] using lang_SeqE by blast
  from u obtain g v where "u = g @ v" "g \<in> lang retryResponsesGroup" "v \<in> lang (Star retryResponsesGroup)"
    using lang_SeqE by blast
  moreover then obtain ws where "v = concat ws" "set ws \<subseteq> lang retryResponsesGroup" by auto
  ultimately show "\<exists>g ws c. s = g @ concat ws @ c \<and> g \<in> lang retryResponsesGroup \<and> set ws \<subseteq> lang retryResponsesGroup \<and> is_code c"
    using s c lang_code by auto
next
  assume "\<exists>g ws c. s = g @ concat ws @ c \<and> g \<in> lang retryResponsesGroup \<and> set ws \<subseteq> lang retryResponsesGroup \<and> is_code c"
  then obtain g ws c where s: "s = (g @ concat ws) @ c" and g: "g \<in> lang retryResponsesGroup"
    and ws: "set ws \<subseteq> lang retryResponsesGroup" and c: "is_code c" by auto
  have st: "concat ws \<in> lang (Star retryResponsesGroup)" using ws by auto
  have c': "c \<in> lang (Rep 3 Digit)" using c by (simp add: lang_code)
  have "(g @ concat ws) @ c \<in> lang (Seq (Seq retryResponsesGroup (Star retryResponsesGroup)) (Rep 3 Digit))"
    by (rule lang_SeqI [OF lang_SeqI [OF g st] c'])
  then show "s \<in> lang retryResponsesRegex"
    by (simp only: s retryResponsesRegex_def Plus_def retryResponsesGroup_def)
qed

lemma code_group: "is_code c \<Longrightarrow> c @ '','' \<in> lang retryResponsesGroup"
  unfolding lang_group by blast

lemma codes_accepted:
  assumes "length codes \<ge> 2" "list_all is_code codes"
  shows "strings_Join codes '','' \<in> lang retryResponsesRegex"
proof -
  from assms(1) obtain c1 rest where codes: "codes = c1 # rest" and rest: "rest \<noteq> []"
    by (cases codes; cases "tl codes") auto
  let ?f = "\<lambda>c. c @ '',''"
  have j: "strings_Join codes '','' = ?f c1 @ concat (map ?f (butlast rest)) @ last rest"
    using rest by (simp add: Join_butlast codes)
  have "is_code c1" "list_all is_code (butlast rest)" "is_code (last rest)"
    using assms(2) rest by (auto simp: codes list_all_iff dest: in_set_butlastD)
  then have "?f c1 \<in> lang retryResponsesGroup" "set (map ?f (butlast rest)) \<subseteq> lang retryResponsesGroup" "is_code (last rest)"
    by (auto simp: list_all_iff intro: code_group)
  then show ?thesis unfolding j lang_retry by blast
qed

lemma colon_free_groups:
  "set ws \<subseteq> lang retryResponsesGroup \<Longrightarrow> CHR '':'' \<notin> set (concat ws) \<Longrightarrow>
     \<exists>cs. list_all is_code cs \<and> ws = map (\<lambda>c. c @ '','') cs"
proof (induction ws)
  case Nil
  show ?case by (rule exI[of _ "[]"]) simp
next
  case (Cons w ws)
  then obtain cs where cs: "list_all is_code cs" "ws = map (\<lambda>c. c @ '','') cs" by auto
  from Cons.prems obtain c where "is_code c" "w = c @ '',''"
    by (auto simp: lang_group)
  then show ?case using cs by (intro exI[of _ "c # cs"]) simp
qed

lemma accepted_codes:
  assumes "s \<in> lang retryResponsesRegex" "CHR '':'' \<notin> set s"
  shows "\<exists>codes. length codes \<ge> 2 \<and> list_all is_code codes \<and> s = strings_Join codes '',''"
proof -
  from assms(1) obtain g ws c where s: "s = concat (g # ws) @ c" and g: "set (g # ws) \<subseteq> lang retryResponsesGroup"
    and c: "is_code c"
    unfolding lang_retry by auto
  have "CHR '':'' \<notin> set (concat (g # ws))" using assms(2) s by auto
  from colon_free_groups [OF g this] obtain cs where
    cs: "list_all is_code cs" "g # ws = map (\<lambda>c. c @ '','') cs" by (elim exE conjE)
  then have ne: "cs \<noteq> []" by auto
  have "strings_Join (cs @ [c]) '','' = concat (map (\<lambda>c. c @ '','') cs) @ c"
    by (simp add: Join_butlast)
  then have "s = strings_Join (cs @ [c]) '',''" using s cs(2) by simp
  moreover have "length (cs @ [c]) \<ge> 2" using ne by (cases cs) auto
  moreover have "list_all is_code (cs @ [c])" using cs(1) c by simp
  ultimately show ?thesis by blast
qed

lemma valid_lang: "unavailableServerRetryResponsesValid s \<longleftrightarrow> s \<in> lang retryResponsesRegex"
proof -
  have "\<not> matches retryResponsesRegex []"
    by (simp add: retryResponsesRegex_def Plus_def Opt_def)
  then show ?thesis
    by (auto simp: unavailableServerRetryResponsesValid_def matches_lang)
qed

text \<open>
  C6, as stated: the validator accepts every comma-joined list of one or more 3-digit
  codes. The list with the single code \<open>503\<close> is rejected.
\<close>

theorem retry_responses_single_code_counterexample:
  "length [''503''] \<ge> 1 \<and> list_all is_code [''503''] \<and> strings_Join [''503''] '','' = ''503''
   \<and> \<not> unavailableServerRetryResponsesValid ''503''"
  by (simp add: is_code_def is_digit_def unavailableServerRetryResponsesValid_def
      retryResponsesRegex_def Plus_def Opt_def eval_nat_numeral)

text \<open>
  C6, amended. The validator accepts every comma-joined list of two or more 3-digit
  codes, and a string without a colon that it accepts is such a list; it accepts
  \<open>503,504,598\<close> and rejects \<open>abc\<close>, the empty string and \<open>503\<close>. It is applied to
  the parameter with spaces, tabs and newlines removed. When the ATS major version is
  at least 6 and a retry policy is configured, a rejected list leaves
  \<open>parent_retry\<close> and the two maximum retry directives without
  \<open>unavailable_server_retry_responses\<close>, and an accepted one puts it between them.
\<close>

theorem retry_responses_validation:
  "(2 \<le> length codes \<and> list_all is_code codes \<longrightarrow>
      unavailableServerRetryResponsesValid (strings_Join codes '',''))
   \<and> (unavailableServerRetryResponsesValid s \<and> CHR '':'' \<notin> set s \<longrightarrow>
      (\<exists>cs. 2 \<le> length cs \<and> list_all is_code cs \<and> s = strings_Join cs '',''))
   \<and> unavailableServerRetryResponsesValid ''503,504,598''
   \<and> \<not> unavailableServerRetryResponsesValid ''abc''
   \<and> \<not> unavailableServerRetryResponsesValid ''''
   \<and> \<not> unavailableServerRetryResponsesValid ''503''
   \<and> (6 \<le> atsMajorVer \<and> ds_MSOParentRetry ds \<noteq> ''''
        \<and> \<not> unavailableServerRetryResponsesValid
              (removeSpaceReplacer (ds_MSOUnavailableServerRetryResponses ds)) \<longrightarrow>
      snd (msoRetry atsMajorVer ds)
        = '' parent_retry='' @ ds_MSOParentRetry ds
            @ '' max_simple_retries='' @ ds_MSOMaxSimpleRetries ds
            @ '' max_unavailable_server_retries='' @ ds_MSOMaxUnavailableServerRetries ds)
   \<and> (6 \<le> atsMajorVer \<and> ds_MSOParentRetry ds \<noteq> ''''
        \<and> unavailableServerRetryResponsesValid
              (removeSpaceReplacer (ds_MSOUnavailableServerRetryResponses ds)) \<longrightarrow>
      snd (msoRetry atsMajorVer ds)
        = '' parent_retry='' @ ds_MSOParentRetry ds
            @ '' unavailable_server_retry_responses=''
            @ removeSpaceReplacer (ds_MSOUnavailableServerRetryResponses ds)
            @ '' max_simple_retries='' @ ds_MSOMaxSimpleRetries ds
            @ '' max_unavailable_server_retries='' @ ds_MSOMaxUnavailableServerRetries ds)"
proof -
  have a: "2 \<le> length codes \<and> list_all is_code codes \<longrightarrow>
             unavailableServerRetryResponsesValid (strings_Join codes '','')"
    using codes_accepted by (simp add: valid_lang)
  have b: "unavailableServerRetryResponsesValid s \<and> CHR '':'' \<notin> set s \<longrightarrow>
             (\<exists>cs. 2 \<le> length cs \<and> list_all is_code cs \<and> s = strings_Join cs '','')"
    using accepted_codes by (simp add: valid_lang)
  have c: "unavailableServerRetryResponsesValid ''503,504,598''"
    "\<not> unavailableServerRetryResponsesValid ''abc''"
    "\<not> unavailableServerRetryResponsesValid ''''"
    "\<not> unavailableServerRetryResponsesValid ''503''"
    by (simp_all add: is_digit_def unavailableServerRetryResponsesValid_def
        retryResponsesRegex_def Plus_def Opt_def eval_nat_numeral)
  have d: "6 \<le> atsMajorVer \<and> ds_MSOParentRetry ds \<noteq> ''''
        \<and> \<not> unavailableServerRetryResponsesValid
              (removeSpaceReplacer (ds_MSOUnavailableServerRetryResponses ds)) \<longrightarrow>
      snd (msoRetry atsMajorVer ds)
        = '' parent_retry='' @ ds_MSOParentRetry ds
            @ '' max_simple_retries='' @ ds_MSOMaxSimpleRetries ds
            @ '' max_unavailable_server_retries='' @ ds_MSOMaxUnavailableServerRetries ds"
    by (simp add: msoRetry_def Let_def)
  have e: "6 \<le> atsMajorVer \<and> ds_MSOParentRetry ds \<noteq> ''''
        \<and> unavailableServerRetryResponsesValid
              (removeSpaceReplacer (ds_MSOUnavailableServerRetryResponses ds)) \<longrightarrow>
      snd (msoRetry atsMajorVer ds)
        = '' parent_retry='' @ ds_MSOParentRetry ds
            @ '' unavailable_server_retry_responses=''
            @ removeSpaceReplacer (ds_MSOUnavailableServerRetryResponses ds)
            @ '' max_simple_retries='' @ ds_MSOMaxSimpleRetries ds
            @ '' max_unavailable_server_retries='' @ ds_MSOMaxUnavailableServerRetries ds"
    by (simp add: msoRetry_def Let_def)
  show ?thesis using a b c d e by blast
qed

theorem retry_responses_validation_witness:
  "2 \<le> length [''503'', ''504''] \<and> list_all is_code [''503'', ''504'']
   \<and> unavailableServerRetryResponsesValid (strings_Join [''503'', ''504''] '','')
   \<and> CHR '':'' \<notin> set ''503,504''
   \<and> (\<exists>cs. 2 \<le> length cs \<and> list_all is_code cs \<and> ''503,504'' = strings_Join cs '','')
   \<and> removeSpaceReplacer ''503, 504'' = ''503,504''
   \<and> snd (msoRetry 6 (ex_mso ''ds1'' ''http://o1.example'' '''' '''' ''both'' ''503, 504''))
       = '' parent_retry=both unavailable_server_retry_responses=503,504''
           @ '' max_simple_retries=1 max_unavailable_server_retries=2''
   \<and> \<not> unavailableServerRetryResponsesValid (removeSpaceReplacer ''5xx'')
   \<and> snd (msoRetry 6 (ex_mso ''ds1'' ''http://o1.example'' '''' '''' ''both'' ''5xx''))
       = '' parent_retry=both max_simple_retries=1 max_unavailable_server_retries=2''"
proof -
  let ?good = "ex_mso ''ds1'' ''http://o1.example'' '''' '''' ''both'' ''503, 504''"
  let ?bad = "ex_mso ''ds1'' ''http://o1.example'' '''' '''' ''both'' ''5xx''"
  have c: "2 \<le> length [''503'', ''504'']" "list_all is_code [''503'', ''504'']"
    "CHR '':'' \<notin> set ''503,504''" "strings_Join [''503'', ''504''] '','' = ''503,504''"
    by (simp_all add: is_code_def is_digit_def)
  have g: "6 \<le> (6::int)" "ds_MSOParentRetry ?good \<noteq> ''''"
    "removeSpaceReplacer (ds_MSOUnavailableServerRetryResponses ?good) = ''503,504''"
    "ds_MSOParentRetry ?good = ''both''" "ds_MSOMaxSimpleRetries ?good = ''1''"
    "ds_MSOMaxUnavailableServerRetries ?good = ''2''"
    by (simp_all add: ex_mso_def removeSpaceReplacer_def)
  have b: "ds_MSOParentRetry ?bad \<noteq> ''''"
    "removeSpaceReplacer (ds_MSOUnavailableServerRetryResponses ?bad) = ''5xx''"
    "ds_MSOParentRetry ?bad = ''both''" "ds_MSOMaxSimpleRetries ?bad = ''1''"
    "ds_MSOMaxUnavailableServerRetries ?bad = ''2''"
    by (simp_all add: ex_mso_def removeSpaceReplacer_def)
  have v: "\<not> unavailableServerRetryResponsesValid ''5xx''"
    by (simp add: is_digit_def unavailableServerRetryResponsesValid_def
        retryResponsesRegex_def Plus_def Opt_def eval_nat_numeral)
  have r: "removeSpaceReplacer ''503, 504'' = ''503,504''" "removeSpaceReplacer ''5xx'' = ''5xx''"
    by (simp_all add: removeSpaceReplacer_def)
  have 1: "unavailableServerRetryResponsesValid ''503,504''"
    using retry_responses_validation [of "[''503'', ''504'']" "''503,504''" 6 ?good] c by simp
  have 2: "\<exists>cs. 2 \<le> length cs \<and> list_all is_code cs \<and> ''503,504'' = strings_Join cs '',''"
    using retry_responses_validation [of "[''503'', ''504'']" "''503,504''" 6 ?good] c(3) 1 by blast
  have 3: "snd (msoRetry 6 ?good) = '' parent_retry=both unavailable_server_retry_responses=503,504''
           @ '' max_simple_retries=1 max_unavailable_server_retries=2''"
    using retry_responses_validation [of "[''503'', ''504'']" "''503,504''" 6 ?good] 1 g by simp
  have 4: "snd (msoRetry 6 ?bad) = '' parent_retry=both max_simple_retries=1 max_unavailable_server_retries=2''"
    using retry_responses_validation [of "[''503'', ''504'']" "''503,504''" 6 ?bad] v b by simp
  show ?thesis using c 1 2 3 4 v r by simp
qed

subsection \<open>Computations\<close>

lemma io_bind_Inr [simp]: "io_bind (es, Inr x) f = (es @ fst (f x), snd (f x))"
  by (simp add: io_bind_def split: prod.splits)

lemma io_bind_Inl [simp]: "io_bind (es, Inl e) f = (es, Inl e)"
  by (simp add: io_bind_def)

lemma io_bind_return [simp]: "io_bind (io_return x) f = f x"
  by (simp add: io_return_def)

lemma snd_originDefaultPort [simp]: "snd (originDefaultPort lib m u) = orgURIWithPort lib u"
  by (simp add: originDefaultPort_def orgURIWithPort_def)

lemma strings_Join_Nil: "sep = [] \<Longrightarrow> strings_Join xs sep = concat xs"
  by (induction xs sep rule: strings_Join.induct) auto

lemma strings_Join_empty [simp]: "strings_Join xs [] = concat xs"
  by (simp add: strings_Join_Nil)

subsection \<open>The line of a multi-site-origin delivery service\<close>

text \<open>The turn of the top-level loop for a multi-site-origin delivery service without
  origin shield, whose origin parses and is new, when no parent is known yet.\<close>

lemma topLevelDS_mso:
  assumes "url_Parse lib (ds_OriginFQDN ds) = Inr orgURI0"
    and "ds_OriginFQDN ds \<notin> st_uniqueOrigins st"
    and "ds_OriginShield ds = ''''" and "ds_MultiSiteOrigin ds"
    and "st_parentInfos st = []"
    and "getParentInfo lib tx serverInfo = (es, Inr parentInfos)"
  shows "snd (topLevelDS lib tx serverInfo atsMajorVer st ds) =
     (let orgURI = orgURIWithPort lib orgURI0;
          text = st_text st @ ''dest_domain='' @ url_Hostname lib (url_Host orgURI)
                   @ '' port='' @ url_Port lib (url_Host orgURI) @ '' ''
                   @ snd (msoDirectives lib atsMajorVer ds (topLevelQStr ds)
                            (lookup_list parentInfos (url_Host orgURI)))
      in Inr (st\<lparr>st_text := text, st_textArr := st_textArr st @ [text],
                 st_uniqueOrigins := insert (ds_OriginFQDN ds) (st_uniqueOrigins st),
                 st_parentInfos := parentInfos\<rparr>))"
  using assms
  by (simp add: topLevelDS_def Let_def io_handle_def topLevelQStr_def split_beta)

lemma snd_msoDirectives:
  "snd (msoDirectives lib atsMajorVer ds parentQStr originParents) =
     msoParents atsMajorVer (ds_MSOAlgorithm ds)
       (dedupParents (promoteParents
          (bucketParents lib (sort_ParentInfoSortByRank lib originParents) [] [] [])))
     @ '' round_robin='' @ ds_MSOAlgorithm ds @ '' qstring='' @ parentQStr
     @ '' go_direct=false parent_is_proxy=false'' @ snd (msoRetry atsMajorVer ds) @ ''\<newline>''"
  by (simp add: msoDirectives_def Let_def split_beta)

text \<open>
  C3. In the top-level multi-site-origin path, the line appended for a delivery service
  has, after the destination and the port, the clause \<open>parent="\<dots>"\<close> with the primary
  list and the clause \<open>secondary_parent="\<dots>"\<close> with the secondary list followed by
  the null list, when the ATS major version is at least 6, the algorithm is
  \<open>consistent_hash\<close> and the secondary or the null list is not empty; otherwise it
  has the single clause \<open>parent="\<dots>"\<close> with the three lists. In particular, with
  ATS 6, \<open>consistent_hash\<close>, and the ranked parents being one primary parent \<open>p\<close>
  and one secondary parent \<open>q\<close> that print differently, the line has
  \<open>parent="p" secondary_parent="q"\<close>.
\<close>

theorem mso_parent_clauses:
  assumes "url_Parse lib (ds_OriginFQDN ds) = Inr orgURI0"
    and "ds_OriginFQDN ds \<notin> st_uniqueOrigins st"
    and "ds_OriginShield ds = ''''" and "ds_MultiSiteOrigin ds"
    and "st_parentInfos st = []"
    and "getParentInfo lib tx serverInfo = (es, Inr parentInfos)"
    and "orgURI = orgURIWithPort lib orgURI0"
    and "rankedParents = sort_ParentInfoSortByRank lib (lookup_list parentInfos (url_Host orgURI))"
    and "dedupParents (promoteParents (bucketParents lib rankedParents [] [] []))
           = (parentInfo, secondaryParentInfo, nullParentInfo)"
  shows \<open>\<exists>st'. snd (topLevelDS lib tx serverInfo atsMajorVer st ds) = Inr st'
     \<and> st_textArr st' = st_textArr st @ [st_text st']
     \<and> st_text st' =
         st_text st @ ''dest_domain='' @ url_Hostname lib (url_Host orgURI)
           @ '' port='' @ url_Port lib (url_Host orgURI) @ '' ''
           @ (if 6 \<le> atsMajorVer \<and> ds_MSOAlgorithm ds = ''consistent_hash''
                 \<and> (secondaryParentInfo \<noteq> [] \<or> nullParentInfo \<noteq> [])
              then ''parent="'' @ strings_Join parentInfo '''' @ ''" secondary_parent="''
                     @ strings_Join secondaryParentInfo '''' @ strings_Join nullParentInfo ''''
                     @ ''"''
              else ''parent="'' @ strings_Join parentInfo '''' @ strings_Join secondaryParentInfo ''''
                     @ strings_Join nullParentInfo '''' @ ''"'')
           @ '' round_robin='' @ ds_MSOAlgorithm ds @ '' qstring='' @ topLevelQStr ds
           @ '' go_direct=false parent_is_proxy=false'' @ snd (msoRetry atsMajorVer ds)
           @ ''\<newline>''
     \<and> (6 \<le> atsMajorVer \<and> ds_MSOAlgorithm ds = ''consistent_hash''
          \<and> pi_PrimaryParent p \<and> \<not> pi_PrimaryParent q \<and> pi_SecondaryParent q
          \<and> Format lib p \<noteq> Format lib q
          \<and> (rankedParents = [p, q] \<or> rankedParents = [q, p]) \<longrightarrow>
        st_text st' =
          st_text st @ ''dest_domain='' @ url_Hostname lib (url_Host orgURI)
            @ '' port='' @ url_Port lib (url_Host orgURI) @ '' ''
            @ ''parent="'' @ Format lib p @ ''" secondary_parent="'' @ Format lib q @ ''"''
            @ '' round_robin=consistent_hash qstring='' @ topLevelQStr ds
            @ '' go_direct=false parent_is_proxy=false'' @ snd (msoRetry atsMajorVer ds)
            @ ''\<newline>'')\<close>
proof -
  let ?b = "(parentInfo, secondaryParentInfo, nullParentInfo)"
  have step: "snd (topLevelDS lib tx serverInfo atsMajorVer st ds) =
     Inr (st\<lparr>st_text := st_text st @ ''dest_domain='' @ url_Hostname lib (url_Host orgURI)
                   @ '' port='' @ url_Port lib (url_Host orgURI) @ '' ''
                   @ msoParents atsMajorVer (ds_MSOAlgorithm ds) ?b
                   @ '' round_robin='' @ ds_MSOAlgorithm ds @ '' qstring='' @ topLevelQStr ds
                   @ '' go_direct=false parent_is_proxy=false'' @ snd (msoRetry atsMajorVer ds)
                   @ ''\<newline>'',
              st_textArr := st_textArr st @ [st_text st @ ''dest_domain='' @ url_Hostname lib (url_Host orgURI)
                   @ '' port='' @ url_Port lib (url_Host orgURI) @ '' ''
                   @ msoParents atsMajorVer (ds_MSOAlgorithm ds) ?b
                   @ '' round_robin='' @ ds_MSOAlgorithm ds @ '' qstring='' @ topLevelQStr ds
                   @ '' go_direct=false parent_is_proxy=false'' @ snd (msoRetry atsMajorVer ds)
                   @ ''\<newline>''],
              st_uniqueOrigins := insert (ds_OriginFQDN ds) (st_uniqueOrigins st),
              st_parentInfos := parentInfos\<rparr>)"
    using topLevelDS_mso [OF assms(1-6), of atsMajorVer] assms(7-9)
    by (simp add: Let_def snd_msoDirectives)
  have scenario: "?b = ([Format lib p], [Format lib q], [])"
    if "pi_PrimaryParent p" "\<not> pi_PrimaryParent q" "pi_SecondaryParent q"
      "Format lib p \<noteq> Format lib q" "rankedParents = [p, q] \<or> rankedParents = [q, p]"
  proof -
    have "bucketParents lib rankedParents [] [] [] = ([Format lib p], [Format lib q], [])"
      using that by auto
    then show ?thesis
      using assms(9) that(4)
      by (simp add: promoteParents_def dedupParents_def removeStrDuplicates_def)
  qed
  show ?thesis
    unfolding step
    by (auto simp: msoParents_def dest!: scenario)
qed

theorem mso_parent_clauses_witness:
  \<open>url_Parse ex_lib (ds_OriginFQDN (ex_mso ''ds1'' ''http://o1.example'' '''' ''consistent_hash'' ''both'' ''503, 504''))
     = Inr \<lparr>url_Scheme = ''http'', url_Host = ''o1.example''\<rparr>
   \<and> getParentInfo ex_lib ex_db_two_parents ex_top_server
     = ([Logged ''cachegroup has server with profile 8 but that profile has no parameters''],
        Inr [(''o1.example:80'', [ex_parent ''org1'' True False, ex_parent ''org2'' False True])])
   \<and> (\<exists>st'. snd (topLevelDS ex_lib ex_db_two_parents ex_top_server 6 topLevelInit
                    (ex_mso ''ds1'' ''http://o1.example'' '''' ''consistent_hash'' ''both'' ''503, 504''))
               = Inr st'
          \<and> st_textArr st' = [st_text st']
          \<and> st_text st' =
              ''dest_domain=o1.example port=80 ''
              @ ''parent="org1.org.example:80|0.999;" secondary_parent="org2.org.example:80|0.999;"''
              @ '' round_robin=consistent_hash qstring=consider go_direct=false parent_is_proxy=false''
              @ '' parent_retry=both unavailable_server_retry_responses=503,504''
              @ '' max_simple_retries=1 max_unavailable_server_retries=2\<newline>'')\<close>
proof -
  let ?ds = "ex_mso ''ds1'' ''http://o1.example'' '''' ''consistent_hash'' ''both'' ''503, 504''"
  let ?p = "ex_parent ''org1'' True False" and ?q = "ex_parent ''org2'' False True"
  let ?u = "\<lparr>url_Scheme = ''http'', url_Host = ''o1.example:80''\<rparr>"
  have h1: "url_Parse ex_lib (ds_OriginFQDN ?ds) = Inr \<lparr>url_Scheme = ''http'', url_Host = ''o1.example''\<rparr>"
    by code_simp
  have h2: "ds_OriginFQDN ?ds \<notin> st_uniqueOrigins topLevelInit"
    by (simp add: topLevelInit_def)
  have h3: "ds_OriginShield ?ds = ''''" and h4: "ds_MultiSiteOrigin ?ds"
    by (simp_all add: ex_mso_def)
  have h5: "st_parentInfos topLevelInit = []"
    by (simp add: topLevelInit_def)
  have h6: "getParentInfo ex_lib ex_db_two_parents ex_top_server
     = ([Logged ''cachegroup has server with profile 8 but that profile has no parameters''],
        Inr [(''o1.example:80'', [?p, ?q])])"
    by code_simp
  have h7: "?u = orgURIWithPort ex_lib \<lparr>url_Scheme = ''http'', url_Host = ''o1.example''\<rparr>"
    by code_simp
  have h8: "[?p, ?q] = sort_ParentInfoSortByRank ex_lib
                         (lookup_list [(''o1.example:80'', [?p, ?q])] (url_Host ?u))"
    by code_simp
  have h9: "dedupParents (promoteParents (bucketParents ex_lib [?p, ?q] [] [] []))
              = ([''org1.org.example:80|0.999;''], [''org2.org.example:80|0.999;''], [])"
    by code_simp
  have f: "Format ex_lib ?p = ''org1.org.example:80|0.999;''"
    "Format ex_lib ?q = ''org2.org.example:80|0.999;''"
    by code_simp+
  have r: "snd (msoRetry 6 ?ds) = '' parent_retry=both unavailable_server_retry_responses=503,504''
              @ '' max_simple_retries=1 max_unavailable_server_retries=2''"
    by code_simp
  have q: "topLevelQStr ?ds = ''consider''" by code_simp
  have a: "ds_MSOAlgorithm ?ds = ''consistent_hash''" by (simp add: ex_mso_def)
  have hn: "url_Hostname ex_lib (url_Host ?u) = ''o1.example''" "url_Port ex_lib (url_Host ?u) = ''80''"
    by code_simp+
  have s: "pi_PrimaryParent ?p" "\<not> pi_PrimaryParent ?q" "pi_SecondaryParent ?q"
    by (simp_all add: ex_parent_def)
  have t: "st_text topLevelInit = ''''" "st_textArr topLevelInit = []"
    by (simp_all add: topLevelInit_def)
  from mso_parent_clauses [OF h1 h2 h3 h4 h5 h6 h7 h8 h9, of 6 ?p ?q]
  obtain st' where "snd (topLevelDS ex_lib ex_db_two_parents ex_top_server 6 topLevelInit ?ds) = Inr st'"
    "st_textArr st' = [st_text st']"
    \<open>st_text st' = ''dest_domain=o1.example port=80 ''
              @ ''parent="org1.org.example:80|0.999;" secondary_parent="org2.org.example:80|0.999;"''
              @ '' round_robin=consistent_hash qstring=consider go_direct=false parent_is_proxy=false''
              @ '' parent_retry=both unavailable_server_retry_responses=503,504''
              @ '' max_simple_retries=1 max_unavailable_server_retries=2\<newline>''\<close>
    unfolding f r q a hn t using s by auto
  then show ?thesis using h1 h6 by blast
qed

subsection \<open>The query-string directive of the top-level branch\<close>

text \<open>
  C5, as stated: a non-empty handling value overrides the default and the directive
  carries it. With the handling value \<open>consider\<close>, the algorithm \<open>consistent_hash\<close>
  and \<open>QStringIgnore = 0\<close>, the line has \<open>qstring=ignore\<close>.
\<close>

theorem toplevel_qstring_handling_counterexample:
  \<open>ds_QStringHandling (ex_mso ''ds1'' ''http://o1.example'' ''consider'' ''consistent_hash'' '''' '''')
     = ''consider''
   \<and> topLevelText ex_lib ex_db_no_parents ex_top_server 6 ''# hdr\<newline>''
         [ex_mso ''ds1'' ''http://o1.example'' ''consider'' ''consistent_hash'' '''' '''']
       = ([Logged ''ParentInfo: delivery service ds1 has no parent servers''],
          Inr (''# hdr\<newline>'' @ ''dest_domain=o1.example port=80 parent="" round_robin=consistent_hash''
                 @ '' qstring=ignore go_direct=false parent_is_proxy=false\<newline>''))\<close>
  by code_simp

text \<open>
  C5, amended. In the top-level branch, the line appended for a multi-site-origin
  delivery service has \<open>qstring=consider\<close> when \<open>QStringHandling\<close> is empty,
  \<open>MSOAlgorithm\<close> is \<open>consistent_hash\<close> and \<open>QStringIgnore\<close> is 0, and
  \<open>qstring=ignore\<close> for every other combination; a non-empty handling value is never
  written, it only excludes \<open>consider\<close>.
\<close>

theorem toplevel_qstring:
  assumes "url_Parse lib (ds_OriginFQDN ds) = Inr orgURI0"
    and "ds_OriginFQDN ds \<notin> st_uniqueOrigins st"
    and "ds_OriginShield ds = ''''" and "ds_MultiSiteOrigin ds"
    and "st_parentInfos st = []"
    and "getParentInfo lib tx serverInfo = (es, Inr parentInfos)"
    and "orgURI = orgURIWithPort lib orgURI0"
  shows "\<exists>st'. snd (topLevelDS lib tx serverInfo atsMajorVer st ds) = Inr st'
     \<and> st_textArr st' = st_textArr st @ [st_text st']
     \<and> st_text st' =
         st_text st @ ''dest_domain='' @ url_Hostname lib (url_Host orgURI)
           @ '' port='' @ url_Port lib (url_Host orgURI) @ '' ''
           @ msoParents atsMajorVer (ds_MSOAlgorithm ds)
               (dedupParents (promoteParents
                  (bucketParents lib
                     (sort_ParentInfoSortByRank lib (lookup_list parentInfos (url_Host orgURI)))
                     [] [] [])))
           @ '' round_robin='' @ ds_MSOAlgorithm ds
           @ '' qstring=''
           @ (if ds_QStringHandling ds = '''' \<and> ds_MSOAlgorithm ds = ''consistent_hash''
                 \<and> ds_QStringIgnore ds = 0
              then ''consider'' else ''ignore'')
           @ '' go_direct=false parent_is_proxy=false'' @ snd (msoRetry atsMajorVer ds)
           @ ''\<newline>''"
  using topLevelDS_mso [OF assms(1-6), of atsMajorVer] assms(7)
  by (simp add: Let_def snd_msoDirectives topLevelQStr_def AlgorithmConsistentHash_def)

theorem toplevel_qstring_witness:
  \<open>\<exists>st'. snd (topLevelDS ex_lib ex_db_no_parents ex_top_server 5 topLevelInit
                 (ex_mso ''ds1'' ''http://o1.example'' '''' ''consistent_hash'' '''' ''''))
            = Inr st'
      \<and> st_text st' = ''dest_domain=o1.example port=80 parent="" round_robin=consistent_hash''
                         @ '' qstring=consider go_direct=false parent_is_proxy=false\<newline>''\<close>
proof -
  let ?ds = "ex_mso ''ds1'' ''http://o1.example'' '''' ''consistent_hash'' '''' ''''"
  let ?u = "\<lparr>url_Scheme = ''http'', url_Host = ''o1.example:80''\<rparr>"
  have h1: "url_Parse ex_lib (ds_OriginFQDN ?ds) = Inr \<lparr>url_Scheme = ''http'', url_Host = ''o1.example''\<rparr>"
    by code_simp
  have h2: "ds_OriginFQDN ?ds \<notin> st_uniqueOrigins topLevelInit"
    by (simp add: topLevelInit_def)
  have h3: "ds_OriginShield ?ds = ''''" and h4: "ds_MultiSiteOrigin ?ds"
    by (simp_all add: ex_mso_def)
  have h5: "st_parentInfos topLevelInit = []"
    by (simp add: topLevelInit_def)
  have h6: "getParentInfo ex_lib ex_db_no_parents ex_top_server = ([], Inr [])"
    by code_simp
  have h7: "?u = orgURIWithPort ex_lib \<lparr>url_Scheme = ''http'', url_Host = ''o1.example''\<rparr>"
    by code_simp
  have p: \<open>msoParents 5 ''consistent_hash''
             (dedupParents (promoteParents
                (bucketParents ex_lib
                   (sort_ParentInfoSortByRank ex_lib (lookup_list [] ''o1.example:80'')) [] [] [])))
           = ''parent=""''\<close>
    by code_simp
  have r: "snd (msoRetry 5 ?ds) = ''''" by code_simp
  have a: "ds_MSOAlgorithm ?ds = ''consistent_hash''" "ds_QStringHandling ?ds = ''''"
    "ds_QStringIgnore ?ds = 0"
    by (simp_all add: ex_mso_def)
  have hn: "url_Hostname ex_lib (url_Host ?u) = ''o1.example''" "url_Port ex_lib (url_Host ?u) = ''80''"
    by code_simp+
  have t: "st_text topLevelInit = ''''" "st_textArr topLevelInit = []"
    by (simp_all add: topLevelInit_def)
  from toplevel_qstring [OF h1 h2 h3 h4 h5 h6 h7, of 5]
  show ?thesis
    unfolding r a hn t by (auto simp: p)
qed

subsection \<open>Every multi-site-origin delivery service should have its line\<close>

text \<open>
  C1. The claim: in the top-level branch every multi-site-origin delivery service whose
  origin parses, is new and has no origin shield has exactly one line in the output,
  not only the first. The code: with two such delivery services and one origin server
  in the parent cache group, the second has no line; with no server in the parent
  cache groups, the line of the first is written twice.
\<close>

theorem mso_lines_of_two_delivery_services:
  \<open>GetParentDotConfig ex_lib ex_db_two_mso (Inr ''1'')
     = ([Logged ''cachegroup has server with profile 8 but that profile has no parameters'',
         Logged ''ParentInfo: delivery service ds1 has no parent servers''],
        Write (''# DO NOT EDIT - Generated for mid1\<newline>''
          @ ''dest_domain=o1.example port=80 parent="" round_robin= qstring=ignore''
          @ '' go_direct=false parent_is_proxy=false\<newline>''))
   \<and> GetParentDotConfig ex_lib ex_db_two_mso_no_parents (Inr ''1'')
     = ([Logged ''ParentInfo: delivery service ds1 has no parent servers'',
         Logged ''ParentInfo: delivery service ds2 has no parent servers''],
        Write (''# DO NOT EDIT - Generated for mid1\<newline>''
          @ ''dest_domain=o1.example port=80 parent="" round_robin= qstring=ignore''
          @ '' go_direct=false parent_is_proxy=false\<newline>''
          @ ''dest_domain=o1.example port=80 parent="" round_robin= qstring=ignore''
          @ '' go_direct=false parent_is_proxy=false\<newline>''
          @ ''dest_domain=o2.example port=80 parent="" round_robin= qstring=ignore''
          @ '' go_direct=false parent_is_proxy=false\<newline>''))\<close>
  by code_simp

subsection \<open>Duplicate origins\<close>


lemma snd_io_bind: "snd (io_bind m f) = (case snd m of Inl e \<Rightarrow> Inl e | Inr x \<Rightarrow> snd (f x))"
  by (cases m) (auto simp: io_bind_def split: sum.splits prod.splits)

lemma snd_io_foldl_Cons:
  "snd (io_foldl f s (x # xs)) =
     (case snd (f s x) of Inl e \<Rightarrow> Inl e | Inr s' \<Rightarrow> snd (io_foldl f s' xs))"
  by (simp add: snd_io_bind)

lemma topLevelDS_seen:
  "ds_OriginFQDN ds \<in> st_uniqueOrigins st \<Longrightarrow>
     snd (topLevelDS lib tx serverInfo atsMajorVer st ds) = Inr st"
  by (simp add: topLevelDS_def Let_def io_return_def snd_io_bind split: sum.splits prod.splits)

lemma topLevelDS_unparsed:
  "url_Parse lib (ds_OriginFQDN ds) = Inl e \<Longrightarrow>
     snd (topLevelDS lib tx serverInfo atsMajorVer st ds) = Inr st"
  by (simp add: topLevelDS_def Let_def)

lemma topLevelDS_uniqueOrigins:
  assumes "snd (topLevelDS lib tx serverInfo atsMajorVer st ds) = Inr st'"
  shows "st_uniqueOrigins st \<subseteq> st_uniqueOrigins st'
         \<and> (url_Parse lib (ds_OriginFQDN ds) = Inr u \<longrightarrow> ds_OriginFQDN ds \<in> st_uniqueOrigins st')"
  using assms
  by (auto simp: topLevelDS_def Let_def io_return_def snd_io_bind io_handle_def
      split: sum.splits prod.splits if_splits failure.splits)

lemma topLevel_first_seen:
  assumes "\<forall>f\<in>seen. (\<exists>e. url_Parse lib f = Inl e) \<or> f \<in> st_uniqueOrigins st"
  shows "snd (io_foldl (topLevelDS lib tx serverInfo atsMajorVer) st data)
         = snd (io_foldl (topLevelDS lib tx serverInfo atsMajorVer) st (firstByOrigin seen data))"
  using assms
proof (induction data arbitrary: st seen)
  case Nil
  show ?case by simp
next
  case (Cons ds data)
  let ?f = "ds_OriginFQDN ds"
  show ?case
  proof (cases "?f \<in> seen")
    case True
    then have "snd (topLevelDS lib tx serverInfo atsMajorVer st ds) = Inr st"
      using Cons.prems topLevelDS_seen topLevelDS_unparsed by blast
    then show ?thesis
      using True Cons.IH [OF Cons.prems] by (simp add: snd_io_bind)
  next
    case False
    show ?thesis
    proof (cases "snd (topLevelDS lib tx serverInfo atsMajorVer st ds)")
      case (Inl r)
      then show ?thesis using False by (simp add: snd_io_bind)
    next
      case (Inr st')
      have "\<forall>f\<in>insert ?f seen. (\<exists>e. url_Parse lib f = Inl e) \<or> f \<in> st_uniqueOrigins st'"
      proof
        fix f assume f: "f \<in> insert ?f seen"
        show "(\<exists>e. url_Parse lib f = Inl e) \<or> f \<in> st_uniqueOrigins st'"
        proof (cases "f = ?f")
          case True
          then show ?thesis
            using topLevelDS_uniqueOrigins [OF Inr] by (cases "url_Parse lib ?f") auto
        next
          case False
          then show ?thesis
            using f Cons.prems topLevelDS_uniqueOrigins [OF Inr] by blast
        qed
      qed
      from Cons.IH [OF this] show ?thesis
        using False Inr by (simp add: snd_io_bind)
    qed
  qed
qed

lemma nonTopLevelDS_cases:
  assumes "snd (nonTopLevelDS lib qsh parents secParents (textArr, done) ds) = (textArr', done')"
  shows "(textArr' = textArr \<and> done' = done
            \<and> (ds_OriginFQDN ds = '''' \<or> (\<exists>e. url_Parse lib (ds_OriginFQDN ds) = Inl e)
                 \<or> ds_OriginFQDN ds \<in> dom done))
         \<or> (ds_OriginFQDN ds \<notin> dom done \<and> done' = done(ds_OriginFQDN ds \<mapsto> ds_Name ds)
              \<and> (\<exists>line. textArr' = textArr @ [line]))"
  using assms
  by (auto simp: nonTopLevelDS_def Let_def split: sum.splits prod.splits if_splits option.splits)

lemma nonTopLevelDS_skip:
  assumes "ds_OriginFQDN ds = '''' \<or> (\<exists>e. url_Parse lib (ds_OriginFQDN ds) = Inl e)
             \<or> ds_OriginFQDN ds \<in> dom (snd st)"
  shows "snd (nonTopLevelDS lib qsh parents secParents st ds) = st"
  using assms
  by (cases st) (auto simp: nonTopLevelDS_def Let_def split: sum.splits prod.splits option.splits)

lemma nonTopLevel_first_seen:
  assumes "\<forall>f\<in>seen. f = '''' \<or> (\<exists>e. url_Parse lib f = Inl e) \<or> f \<in> dom (snd st)"
  shows "snd (io_foldl (nonTopLevelTurn lib qsh parents secParents) st data) = snd (io_foldl (nonTopLevelTurn lib qsh parents secParents) st (firstByOrigin seen data))"
  using assms
proof (induction data arbitrary: st seen)
  case Nil
  show ?case by simp
next
  case (Cons ds data)
  let ?f = "ds_OriginFQDN ds"
  obtain es st' where step: "nonTopLevelDS lib qsh parents secParents st ds = (es, st')"
    by (cases "nonTopLevelDS lib qsh parents secParents st ds")
  then have F: "snd (nonTopLevelTurn lib qsh parents secParents st ds) = Inr st'" by (simp add: nonTopLevelTurn_def)
  show ?case
  proof (cases "?f \<in> seen")
    case True
    then have "st' = st"
      using Cons.prems nonTopLevelDS_skip [of ds lib st qsh parents secParents] step by auto
    then show ?thesis
      using True F Cons.IH [OF Cons.prems] by (simp add: snd_io_bind)
  next
    case False
    obtain textArr "done" textArr' done' where st: "st = (textArr, done)" "st' = (textArr', done')"
      by (cases st; cases st') auto
    have c: "(textArr' = textArr \<and> done' = done
            \<and> (?f = '''' \<or> (\<exists>e. url_Parse lib ?f = Inl e) \<or> ?f \<in> dom done))
         \<or> (?f \<notin> dom done \<and> done' = done(?f \<mapsto> ds_Name ds)
              \<and> (\<exists>line. textArr' = textArr @ [line]))"
      using nonTopLevelDS_cases [of lib qsh parents secParents textArr "done" ds textArr' done']
        step st by simp
    have "\<forall>f\<in>insert ?f seen. f = '''' \<or> (\<exists>e. url_Parse lib f = Inl e) \<or> f \<in> dom (snd st')"
      using Cons.prems c st by auto
    from Cons.IH [OF this] show ?thesis
      using False F by (simp add: snd_io_bind)
  qed
qed

lemma nonTopLevel_lines:
  assumes "length textArr = card (dom done)" "finite (dom done)"
  shows "\<exists>textArr' done'. snd (io_foldl (nonTopLevelTurn lib qsh parents secParents) (textArr, done) data) = Inr (textArr', done')
           \<and> length textArr' = card (dom done') \<and> finite (dom done')
           \<and> dom done' \<subseteq> dom done \<union> ds_OriginFQDN ` set data"
  using assms
proof (induction data arbitrary: textArr "done")
  case Nil
  then show ?case by (simp add: io_return_def)
next
  case (Cons ds data)
  let ?f = "ds_OriginFQDN ds"
  obtain es ta dn where step: "nonTopLevelDS lib qsh parents secParents (textArr, done) ds = (es, ta, dn)"
    by (cases "nonTopLevelDS lib qsh parents secParents (textArr, done) ds") auto
  then have F: "snd (nonTopLevelTurn lib qsh parents secParents (textArr, done) ds) = Inr (ta, dn)" by (simp add: nonTopLevelTurn_def)
  have c: "(ta = textArr \<and> dn = done)
         \<or> (?f \<notin> dom done \<and> dn = done(?f \<mapsto> ds_Name ds) \<and> (\<exists>line. ta = textArr @ [line]))"
    using nonTopLevelDS_cases [of lib qsh parents secParents textArr "done" ds ta dn] step by auto
  have inv: "length ta = card (dom dn) \<and> finite (dom dn) \<and> dom dn \<subseteq> dom done \<union> {?f}"
    using c
  proof
    assume "ta = textArr \<and> dn = done"
    then show ?thesis using Cons.prems by auto
  next
    assume n: "?f \<notin> dom done \<and> dn = done(?f \<mapsto> ds_Name ds) \<and> (\<exists>line. ta = textArr @ [line])"
    then have "dom dn = insert ?f (dom done)" by simp
    moreover have "card (insert ?f (dom done)) = Suc (card (dom done))"
      using n Cons.prems(2) by (intro card_insert_disjoint) auto
    ultimately show ?thesis using n Cons.prems by auto
  qed
  from inv have inv1: "length ta = card (dom dn)" and inv2: "finite (dom dn)"
    and inv3: "dom dn \<subseteq> dom done \<union> {?f}" by auto
  from Cons.IH [OF inv1 inv2] obtain textArr' done' where
    "snd (io_foldl (nonTopLevelTurn lib qsh parents secParents) (ta, dn) data) = Inr (textArr', done')"
    "length textArr' = card (dom done')" "finite (dom done')"
    "dom done' \<subseteq> dom dn \<union> ds_OriginFQDN ` set data"
    by blast
  then show ?case using F inv3 by (auto simp: snd_io_bind)
qed

lemma firstByOrigin_distinct:
  "distinct (map ds_OriginFQDN (firstByOrigin seen data))
   \<and> set (map ds_OriginFQDN (firstByOrigin seen data)) = ds_OriginFQDN ` set data - seen"
  by (induction data arbitrary: seen) auto



subsection \<open>A failed query aborts the generation\<close>

lemma query_failed_simps [simp]:
  "query_failed [] = False"
  "query_failed (QueryFailed q # es) = True"
  "query_failed (Logged l # es) = query_failed es"
  "query_failed (es @ es') = (query_failed es \<or> query_failed es')"
  by (auto simp: query_failed_def)

lemma failsafe_return [simp]: "failsafe P (io_return x)"
  by (simp add: failsafe_def io_return_def)

lemma failsafe_error [simp]: "failsafe P (io_error e)"
  by (simp add: failsafe_def io_error_def)

lemma failsafe_quiet [simp]: "\<not> query_failed es \<Longrightarrow> failsafe P (es, r)"
  by (simp add: failsafe_def)

lemma failsafe_failed [simp]: "P e \<Longrightarrow> failsafe P (es, Inl e)"
  by (simp add: failsafe_def)

lemma failsafe_bind:
  assumes "failsafe P m" and "\<And>x. failsafe P (f x)"
  shows "failsafe P (io_bind m f)"
proof (cases m)
  case (Pair es r)
  show ?thesis
  proof (cases r)
    case (Inl e)
    then show ?thesis using assms(1) Pair by (simp add: failsafe_def)
  next
    case (Inr x)
    then have "\<not> query_failed es" using assms(1) Pair by (simp add: failsafe_def)
    then show ?thesis using assms(2) [of x] Pair Inr
      by (cases "f x") (auto simp: failsafe_def)
  qed
qed

lemma failsafe_wrap: "failsafe is_Error m \<Longrightarrow> failsafe is_Error (io_wrap prefix m)"
  by (cases m) (auto simp: failsafe_def io_wrap_def split: sum.splits failure.splits)

lemma failsafe_handle:
  "failsafe is_Error m \<Longrightarrow> failsafe is_server_error (io_handle 500 prefix m)"
  by (cases m) (auto simp: failsafe_def io_handle_def split: sum.splits failure.splits)

lemma failsafe_foldl:
  assumes "\<And>s x. failsafe P (f s x)"
  shows "failsafe P (io_foldl f s xs)"
  by (induction xs arbitrary: s) (auto intro!: failsafe_bind assms)

lemma failsafe_Query: "failsafe is_Error (tx_Query name q)"
  by (cases q) (simp_all add: tx_Query_def)

lemma failsafe_Scan:
  assumes "\<And>acc v. \<not> query_failed (fst (body acc v))"
  shows "failsafe is_Error (rows_Scan name body init rs)"
  unfolding rows_Scan_def
proof (rule failsafe_foldl)
  fix s x
  show "failsafe is_Error (case x of Inl e \<Rightarrow> ([QueryFailed name], Inl (Error (''scanning: '' @ e)))
                            | Inr v \<Rightarrow> (case body s v of (es, acc') \<Rightarrow> (es, Inr acc')))"
    using assms [of s] by (cases x) (auto simp: split_beta)
qed

lemma failsafe_getServerInfo: "failsafe is_Error (getServerInfo q)"
  by (cases q) (simp_all add: getServerInfo_def)

lemma failsafe_GetProfileParamValue: "failsafe is_Error (GetProfileParamValue tx p f n)"
  by (cases "db_ProfileParamValue tx p f n") (simp_all add: GetProfileParamValue_def)

lemma failsafe_GetATSMajorVersion: "failsafe is_Error (GetATSMajorVersion lib tx p)"
  unfolding GetATSMajorVersion_def
  by (intro failsafe_bind failsafe_wrap failsafe_GetProfileParamValue)
     (auto simp: Let_def split: sum.splits)

lemma failsafe_headerComment: "failsafe is_Error (headerComment tx name)"
  by (cases "db_headerComment tx name") (simp_all add: headerComment_def)

lemma failsafe_getParentConfigServerProfileParams:
  "failsafe is_Error (getParentConfigServerProfileParams tx serverID)"
  unfolding getParentConfigServerProfileParams_def
  by (intro failsafe_bind failsafe_Query failsafe_Scan) (simp add: split_beta)

lemma failsafe_getParentConfigDSRaw: "failsafe is_Error (getParentConfigDSRaw lib q)"
  unfolding getParentConfigDSRaw_def
  by (intro failsafe_bind failsafe_Query failsafe_Scan) simp

lemma failsafe_getParentConfigDSParamsRaw: "failsafe is_Error (getParentConfigDSParamsRaw q)"
  unfolding getParentConfigDSParamsRaw_def
  by (intro failsafe_bind failsafe_Query failsafe_Scan) (simp add: Let_def)

lemma failsafe_getParentConfigDSTopLevel:
  "failsafe is_Error (getParentConfigDSTopLevel lib tx cdnName)"
  unfolding getParentConfigDSTopLevel_def getParentConfigDSParamsTopLevel_def Let_def
  by (intro failsafe_bind failsafe_wrap failsafe_getParentConfigDSRaw
      failsafe_getParentConfigDSParamsRaw failsafe_return)

lemma failsafe_getParentConfigDS: "failsafe is_Error (getParentConfigDS lib tx serverID)"
  unfolding getParentConfigDS_def getParentConfigDSParams_def
  by (intro failsafe_bind failsafe_wrap failsafe_getParentConfigDSRaw
      failsafe_getParentConfigDSParamsRaw failsafe_return)

lemma failsafe_getCDNDomainByProfileID: "failsafe is_Error (getCDNDomainByProfileID tx p)"
  by (cases "db_CDNDomainByProfileID tx p") (simp_all add: getCDNDomainByProfileID_def)

lemma failsafe_getServerDSes: "failsafe is_Error (getServerDSes tx serverIDs)"
  unfolding getServerDSes_def
  by (auto intro!: failsafe_bind failsafe_Query failsafe_Scan simp: split_beta)

lemma failsafe_getDSOrigins: "failsafe is_Error (getDSOrigins tx dsIDs)"
  unfolding getDSOrigins_def
  by (auto intro!: failsafe_bind failsafe_Query failsafe_Scan simp: split_beta Let_def
      split: if_splits)

lemma failsafe_profileParam: "failsafe is_Error (profileParam lib sParams param)"
  by (cases param) (auto simp: profileParam_def Let_def split: sum.splits)

lemma failsafe_getParentConfigServerProfileParamsX:
  "failsafe is_Error (getParentConfigServerProfileParamsX lib tx serverIDs)"
  unfolding getParentConfigServerProfileParamsX_def
  by (intro failsafe_bind failsafe_Query failsafe_Scan failsafe_foldl failsafe_profileParam) simp

lemma failsafe_parentServer:
  "failsafe is_Error (parentServer lib cgServerDSes dsOrigins profileParams acc s)"
  unfolding parentServer_def
  by (cases acc) (auto intro!: failsafe_bind failsafe_foldl split: option.splits)

lemma failsafe_getServerParentCacheGroupProfiles:
  "failsafe is_Error (getServerParentCacheGroupProfiles lib tx server)"
  unfolding getServerParentCacheGroupProfiles_def Let_def
  by (intro failsafe_bind failsafe_Query failsafe_Scan failsafe_wrap failsafe_getServerDSes
      failsafe_getParentConfigServerProfileParamsX failsafe_getDSOrigins failsafe_foldl
      failsafe_parentServer) simp

lemma failsafe_getParentInfo: "failsafe is_Error (getParentInfo lib tx server)"
  unfolding getParentInfo_def
  by (intro failsafe_bind failsafe_wrap failsafe_getCDNDomainByProfileID)
     (auto intro!: failsafe_bind failsafe_getServerParentCacheGroupProfiles)

lemma quiet_originDefaultPort [simp]: "\<not> query_failed (fst (originDefaultPort lib m u))"
  by (simp add: originDefaultPort_def)

lemma quiet_msoDirectives [simp]:
  "\<not> query_failed (fst (msoDirectives lib atsMajorVer ds parentQStr originParents))"
  by (simp add: msoDirectives_def msoRetry_def Let_def split_beta)

lemma failsafe_topLevelDS:
  "failsafe is_server_error (topLevelDS lib tx serverInfo atsMajorVer st ds)"
  unfolding topLevelDS_def Let_def
  by (cases "url_Parse lib (ds_OriginFQDN ds)")
     (auto simp: split_beta simp del: io_bind_Inr io_bind_Inl io_bind_return
        intro!: failsafe_bind failsafe_handle failsafe_getParentConfigServerProfileParams
          failsafe_getParentInfo)

lemma failsafe_topLevelText:
  "failsafe is_server_error (topLevelText lib tx serverInfo atsMajorVer hdr data)"
  unfolding topLevelText_def
  by (intro failsafe_bind failsafe_foldl failsafe_topLevelDS failsafe_return)

lemma failsafe_topLevel: "failsafe is_server_error (topLevel lib tx serverInfo atsMajorVer hdr)"
  unfolding topLevel_def
  by (intro failsafe_bind failsafe_handle failsafe_getParentConfigDSTopLevel failsafe_topLevelText)

lemma quiet_nonTopLevelDS [simp]:
  "\<not> query_failed (fst (nonTopLevelDS lib qsh parents secParents st ds))"
  by (cases st)
     (auto simp: nonTopLevelDS_def Let_def split_beta split: sum.splits option.splits)

lemma failsafe_nonTopLevelText:
  "failsafe is_server_error (nonTopLevelText lib tx serverInfo atsMajorVer hdr data)"
  unfolding nonTopLevelText_def nonTopLevelLoop_def nonTopLevelTurn_def Let_def
  by (auto simp: split_beta simp del: io_bind_Inr io_bind_Inl io_bind_return
      intro!: failsafe_bind failsafe_handle failsafe_getParentInfo
        failsafe_getParentConfigServerProfileParams failsafe_foldl)

lemma failsafe_nonTopLevel:
  "failsafe is_server_error (nonTopLevel lib tx serverInfo atsMajorVer hdr)"
  unfolding nonTopLevel_def
  by (intro failsafe_bind failsafe_handle failsafe_getParentConfigDS failsafe_nonTopLevelText)

lemma failsafe_handler:
  "failsafe is_server_error
     (case newInfo of
        Inl (errCode, userErr, sysErr) \<Rightarrow> io_error (HandleErr errCode userErr sysErr)
      | Inr param \<Rightarrow>
          (let idOrHost = strings_TrimSuffix param ''.json'' in
           io_bind (io_handle 500 ''Getting server info: ''
                      (case strconv_Atoi lib idOrHost of
                         Inl err \<Rightarrow> getServerInfoByHost tx idOrHost
                       | Inr sid \<Rightarrow> getServerInfoByID tx sid))
             (\<lambda>found.
                case found of
                  None \<Rightarrow> io_error (HandleErr 404 (Some ''server not found'') None)
                | Some serverInfo \<Rightarrow>
                    io_bind (io_handle 500 ''Getting ATS major version: ''
                               (GetATSMajorVersion lib tx (srv_ProfileID serverInfo)))
                      (\<lambda>atsMajorVer.
                    io_bind (io_handle 500 ''Getting header comment: ''
                               (headerComment tx (srv_HostName serverInfo)))
                      (\<lambda>hdr.
                         if IsTopLevelCache serverInfo
                         then topLevel lib tx serverInfo atsMajorVer hdr
                         else nonTopLevel lib tx serverInfo atsMajorVer hdr)))))"
  unfolding Let_def getServerInfoByHost_def getServerInfoByID_def
  by (auto split: sum.splits option.splits simp del: io_bind_Inr io_bind_Inl io_bind_return
      intro!: failsafe_bind failsafe_handle failsafe_getServerInfo failsafe_GetATSMajorVersion
        failsafe_headerComment failsafe_topLevel failsafe_nonTopLevel)



end
